

theory Spec2Isabelle
  imports Complex_Main "HOL-Library.Signed_Division" "HOL-Library.Multiset"
begin

section \<open>Vectors, colours, rays and hit records\<close>

text \<open>
  The renderer's \<^verbatim>\<open>double\<close> values are modelled as \<^typ>\<open>real\<close>: rounding, NaN and the
  infinities of IEEE arithmetic are not part of this development. The one infinite value
  the program passes around, the constant \<^verbatim>\<open>infinity\<close> of rtweekend.h used as the upper
  end of a search interval, is a constructor of the type \<open>bound\<close> below.
\<close>

datatype vec3 = Vec3 (vec3_x: real) (vec3_y: real) (vec3_z: real)

type_synonym color = vec3

type_synonym point3 = vec3

text \<open>
  Modelled from the spec: vec3.h is not among the sources. The spec describes it as a small
  value type with addition, scalar and component-wise multiplication, length and
  normalisation; the default constructor gives the zero vector. Normalising the zero vector
  divides by zero: the program gets NaN components there, the model the zero vector.
\<close>

definition vec3_zero :: vec3 where
  "vec3_zero = Vec3 0 0 0"

definition vec3_add :: "vec3 \<Rightarrow> vec3 \<Rightarrow> vec3" where
  "vec3_add u v = Vec3 (vec3_x u + vec3_x v) (vec3_y u + vec3_y v) (vec3_z u + vec3_z v)"

definition vec3_sub :: "vec3 \<Rightarrow> vec3 \<Rightarrow> vec3" where
  "vec3_sub u v = Vec3 (vec3_x u - vec3_x v) (vec3_y u - vec3_y v) (vec3_z u - vec3_z v)"

definition vec3_mul :: "vec3 \<Rightarrow> vec3 \<Rightarrow> vec3" where
  "vec3_mul u v = Vec3 (vec3_x u * vec3_x v) (vec3_y u * vec3_y v) (vec3_z u * vec3_z v)"

definition vec3_scale :: "real \<Rightarrow> vec3 \<Rightarrow> vec3" where
  "vec3_scale t v = Vec3 (t * vec3_x v) (t * vec3_y v) (t * vec3_z v)"

definition vec3_length :: "vec3 \<Rightarrow> real" where
  "vec3_length v = sqrt (vec3_x v * vec3_x v + vec3_y v * vec3_y v + vec3_z v * vec3_z v)"

definition unit_vector :: "vec3 \<Rightarrow> vec3" where
  "unit_vector v = vec3_scale (1 / vec3_length v) v"

text \<open>
  Modelled from the spec: ray.h is not among the sources. A ray is an origin and a
  direction.
\<close>

record ray =
  origin :: point3
  direction :: vec3

text \<open>
  The three material classes that main.cpp constructs. Their \<^verbatim>\<open>scatter\<close> methods live in
  material.h, which is not among the sources, so scattering is a parameter of everything
  below.
\<close>

datatype material = lambertian color | metal color real | dielectric real

text \<open>
  Modelled from the spec: hittable.h is not among the sources. A hit record carries the hit
  point, the normal, the struck material, the parametric distance and the face flag.
\<close>

record hit_record =
  hit_p :: point3
  hit_normal :: vec3
  mat_ptr :: material
  hit_t :: real
  front_face :: bool

datatype bound = bounded real | infinity

text \<open>
  The sphere objects that main.cpp constructs: centre, radius, material. Their
  intersection test lives in sphere.h, which is not among the sources.
\<close>

datatype sphere = sphere (sphere_center: point3) (sphere_radius: real) (sphere_mat_ptr: material)

text \<open>
  An object of the abstract class \<^verbatim>\<open>hittable\<close> is its one virtual method
  \<^verbatim>\<open>hit(r, t_min, t_max, rec)\<close>: the result is the record written to \<^verbatim>\<open>rec\<close> when the
  method returns true, and \<open>None\<close> when it returns false. A material's
  \<^verbatim>\<open>scatter(r_in, rec, attenuation, scattered)\<close> draws random numbers, so it takes and
  returns the state \<open>'s\<close> of the random source; its result is the pair written to
  \<^verbatim>\<open>attenuation\<close> and \<^verbatim>\<open>scattered\<close> when it returns true.
\<close>

type_synonym hittable = "ray \<Rightarrow> real \<Rightarrow> bound \<Rightarrow> hit_record option"

type_synonym 's scatter = "material \<Rightarrow> ray \<Rightarrow> hit_record \<Rightarrow> 's \<Rightarrow> (color \<times> ray) option \<times> 's"

text \<open>
  Modelled from the spec: hittable_list.h is not among the sources. The spec says that a
  scene's \<^verbatim>\<open>hit\<close> queries every member in order and keeps the closest hit found,
  narrowing the upper end of the interval to that hit's distance as it scans. The
  intersection test of a single sphere is the parameter \<open>sphere_hit\<close>.
\<close>

definition hittable_list_hit :: "(sphere \<Rightarrow> hittable) \<Rightarrow> sphere list \<Rightarrow> hittable" where
  "hittable_list_hit sphere_hit objects r t_min t_max =
     fst (fold (\<lambda>object (hit_anything, closest_so_far).
                  case sphere_hit object r t_min closest_so_far of
                    Some rec \<Rightarrow> (Some rec, bounded (hit_t rec))
                  | None \<Rightarrow> (hit_anything, closest_so_far))
               objects (None, t_max))"

section \<open>The path tracer\<close>

definition MIN_HIT_LIMIT :: real where
  "MIN_HIT_LIMIT = 0.001"

text \<open>The background of \<^verbatim>\<open>ray_color\<close>, lines 40 to 42 of main.cpp.\<close>

definition sky_color :: "ray \<Rightarrow> color" where
  "sky_color r =
     (let unit_direction = unit_vector (direction r);
          t = 0.5 * (vec3_y unit_direction + 1.0)
      in vec3_add (vec3_scale (1.0 - t) (Vec3 1.0 1.0 1.0)) (vec3_scale t (Vec3 0.5 0.7 1.0)))"

function ray_color :: "hittable \<Rightarrow> 's scatter \<Rightarrow> ray \<Rightarrow> int \<Rightarrow> 's \<Rightarrow> color \<times> 's" where
  "ray_color world scatter r depth s =
     (if depth \<le> 0 then (Vec3 0 0 0, s)
      else
        (case world r MIN_HIT_LIMIT infinity of
           Some rec \<Rightarrow>
             (case scatter (mat_ptr rec) r rec s of
                (Some (attenuation, scattered), s') \<Rightarrow>
                  (let (c, s'') = ray_color world scatter scattered (depth - 1) s'
                   in (vec3_mul attenuation c, s''))
              | (None, s') \<Rightarrow> (Vec3 0 0 0, s'))
         | None \<Rightarrow> (sky_color r, s)))"
  by pat_completeness auto

termination
  by (relation "measure (\<lambda>(world, scatter, r, depth, s). nat depth)") auto

declare ray_color.simps [simp del]

text \<open>
  The same body with an explicit budget of nested calls: every call of the function spends
  one unit, and \<open>None\<close> says that the budget ran out before the recursion ended.
\<close>

fun ray_color_fuel :: "nat \<Rightarrow> hittable \<Rightarrow> 's scatter \<Rightarrow> ray \<Rightarrow> int \<Rightarrow> 's \<Rightarrow> (color \<times> 's) option" where
  "ray_color_fuel 0 world scatter r depth s = None"
| "ray_color_fuel (Suc n) world scatter r depth s =
     (if depth \<le> 0 then Some (Vec3 0 0 0, s)
      else
        (case world r MIN_HIT_LIMIT infinity of
           Some rec \<Rightarrow>
             (case scatter (mat_ptr rec) r rec s of
                (Some (attenuation, scattered), s') \<Rightarrow>
                  (case ray_color_fuel n world scatter scattered (depth - 1) s' of
                     Some (c, s'') \<Rightarrow> Some (vec3_mul attenuation c, s'')
                   | None \<Rightarrow> None)
              | (None, s') \<Rightarrow> Some (Vec3 0 0 0, s'))
         | None \<Rightarrow> Some (sky_color r, s)))"

section \<open>The random source\<close>

text \<open>
  \<^verbatim>\<open>rand()\<close> and \<^verbatim>\<open>RAND_MAX\<close> belong to the C library. The generator is a parameter
  \<open>rand\<close> that takes the hidden state \<open>'s\<close> of the library and returns the number drawn
  and the next state. The two overloads of \<^verbatim>\<open>random_double\<close> are those of rtweekend.h.
\<close>

definition random_double :: "('s \<Rightarrow> int \<times> 's) \<Rightarrow> int \<Rightarrow> 's \<Rightarrow> real \<times> 's" where
  "random_double rand RAND_MAX s =
     (let (n, s') = rand s in (real_of_int n / (real_of_int RAND_MAX + 1.0), s'))"

definition random_double_range ::
  "('s \<Rightarrow> int \<times> 's) \<Rightarrow> int \<Rightarrow> real \<Rightarrow> real \<Rightarrow> 's \<Rightarrow> real \<times> 's" where
  "random_double_range rand RAND_MAX lo hi s =
     (let (d, s') = random_double rand RAND_MAX s in (lo + (hi - lo) * d, s'))"

text \<open>
  Modelled from the spec: \<^verbatim>\<open>color::random()\<close> and \<^verbatim>\<open>color::random(min, max)\<close> are
  members of vec3.h, which is not among the sources. The spec lists them as the
  uniform-random-in-range generators of the vector library: every component is one draw
  of \<^verbatim>\<open>random_double\<close>, taken here in the order x, y, z.
\<close>

definition color_random :: "('s \<Rightarrow> int \<times> 's) \<Rightarrow> int \<Rightarrow> 's \<Rightarrow> color \<times> 's" where
  "color_random rand RAND_MAX s =
     (let (cx, s1) = random_double rand RAND_MAX s;
          (cy, s2) = random_double rand RAND_MAX s1;
          (cz, s3) = random_double rand RAND_MAX s2
      in (Vec3 cx cy cz, s3))"

definition color_random_range ::
  "('s \<Rightarrow> int \<times> 's) \<Rightarrow> int \<Rightarrow> real \<Rightarrow> real \<Rightarrow> 's \<Rightarrow> color \<times> 's" where
  "color_random_range rand RAND_MAX lo hi s =
     (let (cx, s1) = random_double_range rand RAND_MAX lo hi s;
          (cy, s2) = random_double_range rand RAND_MAX lo hi s1;
          (cz, s3) = random_double_range rand RAND_MAX lo hi s2
      in (Vec3 cx cy cz, s3))"

section \<open>The scene generator\<close>

text \<open>
  The body of the inner loop of \<^verbatim>\<open>random_scene\<close> (lines 53 to 77), for the grid point
  \<open>(a, b)\<close>. \<^verbatim>\<open>world.add\<close> appends to the list of objects. C++ does not fix the order
  in which the two draws inside the constructor call of \<^verbatim>\<open>center\<close> are made, nor that
  of the two calls in \<^verbatim>\<open>color::random() * color::random()\<close>; the model takes them from
  left to right.
\<close>

definition random_scene_cell ::
  "('s \<Rightarrow> int \<times> 's) \<Rightarrow> int \<Rightarrow> int \<Rightarrow> int \<Rightarrow> sphere list \<times> 's \<Rightarrow> sphere list \<times> 's" where
  "random_scene_cell rand RAND_MAX a b ws =
     (let (world, s) = ws;
          (choose_mat, s1) = random_double rand RAND_MAX s;
          (jx, s2) = random_double rand RAND_MAX s1;
          (jz, s3) = random_double rand RAND_MAX s2;
          center = Vec3 (real_of_int a + 0.9 * jx) 0.2 (real_of_int b + 0.9 * jz)
      in if vec3_length (vec3_sub center (Vec3 4 0.2 0)) > 0.9 then
           if choose_mat < 0.8 then
             (let (c1, s4) = color_random rand RAND_MAX s3;
                  (c2, s5) = color_random rand RAND_MAX s4;
                  albedo = vec3_mul c1 c2
              in (world @ [sphere center 0.2 (lambertian albedo)], s5))
           else if choose_mat < 0.95 then
             (let (albedo, s4) = color_random_range rand RAND_MAX 0.5 1 s3;
                  (fuzz, s5) = random_double_range rand RAND_MAX 0 0.5 s4
              in (world @ [sphere center 0.2 (metal albedo fuzz)], s5))
           else (world @ [sphere center 0.2 (dielectric 1.5)], s3)
         else (world, s3))"

definition random_scene :: "('s \<Rightarrow> int \<times> 's) \<Rightarrow> int \<Rightarrow> 's \<Rightarrow> sphere list \<times> 's" where
  "random_scene rand RAND_MAX s =
     (let ground_material = lambertian (Vec3 0.5 0.5 0.5);
          world0 = [sphere (Vec3 0 (- 1000) 0) 1000 ground_material];
          (world1, s') =
            fold (\<lambda>a. fold (\<lambda>b. random_scene_cell rand RAND_MAX a b) [- 3 .. 2]) [- 3 .. 2]
              (world0, s);
          material1 = dielectric 1.5;
          world2 = world1 @ [sphere (Vec3 0 1 0) 1.0 material1];
          material2 = lambertian (Vec3 0.4 0.2 0.1);
          world3 = world2 @ [sphere (Vec3 (- 4) 1 0) 1.0 material2];
          material3 = metal (Vec3 0.7 0.6 0.5) 0.0;
          world4 = world3 @ [sphere (Vec3 4 1 0) 1.0 material3]
      in (world4, s'))"




section \<open>The image buffer\<close>

text \<open>
  \<^verbatim>\<open>image_matrix\<close> allocates an array of \<open>height\<close> row pointers with \<^verbatim>\<open>calloc\<close>, then
  for \<open>j\<close> from \<open>height - 1\<close> down to \<open>0\<close> allocates row \<open>j\<close> with \<^verbatim>\<open>calloc\<close> (all bytes
  zero, which reads as the double \<open>0.0\<close>) and stores the default colour in each of its
  cells. The buffer is a list of rows, indexed by \<open>j\<close>; a row is a list of colours, indexed
  by \<open>i\<close>. A failing allocation is not modelled.
\<close>

definition image_matrix :: "int \<Rightarrow> int \<Rightarrow> color list list" where
  "image_matrix width height =
     fold (\<lambda>j arr.
             arr[nat j := fold (\<lambda>i row. row[nat i := vec3_zero]) [0 .. width - 1]
                            (replicate (nat width) (Vec3 0 0 0))])
          (rev [0 .. height - 1])
          (replicate (nat height) [])"

text \<open>
  The store \<^verbatim>\<open>output_matrix[j][i] = v\<close>. Outside the buffer the C++ store has no defined
  behaviour; the model leaves the buffer as it is there, and \<open>thread_bands_in_range\<close> below
  shows that the scheduler only stores into rows that exist.
\<close>

definition matrix_store :: "color list list \<Rightarrow> int \<Rightarrow> int \<Rightarrow> color \<Rightarrow> color list list" where
  "matrix_store output_matrix j i v =
     (if 0 \<le> j \<and> j < int (length output_matrix) \<and>
         0 \<le> i \<and> i < int (length (output_matrix ! nat j))
      then output_matrix[nat j := (output_matrix ! nat j)[nat i := v]]
      else output_matrix)"

section \<open>Text output\<close>

text \<open>The decimal text that \<^verbatim>\<open>operator<<\<close> writes for an \<^verbatim>\<open>int\<close>.\<close>

function string_of_nat :: "nat \<Rightarrow> string" where
  "string_of_nat n =
     (if n < 10 then [''0123456789'' ! n]
      else string_of_nat (n div 10) @ [''0123456789'' ! (n mod 10)])"
  by pat_completeness auto

termination
  by (relation "measure id") auto

declare string_of_nat.simps [simp del]

definition string_of_int :: "int \<Rightarrow> string" where
  "string_of_int k = (if k < 0 then CHR ''-'' # string_of_nat (nat (- k)) else string_of_nat (nat k))"

text \<open>
  \<^verbatim>\<open>static_cast<int>\<close> of a double drops the fractional part. For a value outside the
  range of \<^verbatim>\<open>int\<close> C++ leaves the result undefined; the model truncates there as well.
\<close>

definition static_cast_int :: "real \<Rightarrow> int" where
  "static_cast_int v = (if 0 \<le> v then \<lfloor>v\<rfloor> else \<lceil>v\<rceil>)"

section \<open>The render scheduler\<close>

text \<open>
  The global variables that the workers share: the state of the random source, the two
  progress counters of main.cpp and the text written to the standard error stream.
\<close>

record 's globals =
  rng :: 's
  current_progress :: int
  total_progress :: int
  cerr :: string

definition update_progress :: "'s globals \<Rightarrow> 's globals" where
  "update_progress g =
     (let g1 = g\<lparr>current_progress := current_progress g + 1\<rparr>
      in g1\<lparr>cerr := cerr g1 @ [CHR 0x0D] @ ''Processing row: '' @
                       string_of_int (current_progress g1) @ ''/'' @
                       string_of_int (total_progress g1) @ '' ''\<rparr>)"

text \<open>
  The camera and the pixel encoder live in camera.h and color.h, which are not among the
  sources. A camera is the list of arguments main.cpp gives to its constructor; its method
  \<^verbatim>\<open>get_ray(u, v)\<close> draws random numbers and is the parameter \<open>get_ray\<close>;
  \<^verbatim>\<open>format_color(pixel_color, samples_per_pixel)\<close> is the parameter \<open>format_color\<close>.
\<close>

datatype camera = camera point3 point3 vec3 real real real real

record 's library =
  lib_rand :: "'s \<Rightarrow> int \<times> 's"
  lib_RAND_MAX :: int
  lib_sphere_hit :: "sphere \<Rightarrow> hittable"
  lib_scatter :: "'s scatter"
  lib_get_ray :: "camera \<Rightarrow> real \<Rightarrow> real \<Rightarrow> 's \<Rightarrow> ray \<times> 's"
  lib_format_color :: "color \<Rightarrow> int \<Rightarrow> color"

text \<open>
  One sample of one pixel: the body of the loop over \<open>s\<close>, lines 117 to 120. For an image
  that is one pixel wide or high the quotient divides by zero, where the program gets an
  infinity or NaN and the model \<open>0\<close>.
\<close>

definition take_sample ::
  "'s library \<Rightarrow> int \<Rightarrow> int \<Rightarrow> int \<Rightarrow> hittable \<Rightarrow> camera \<Rightarrow> int \<Rightarrow> int \<Rightarrow>
   color \<times> 's \<Rightarrow> color \<times> 's" where
  "take_sample L image_width image_height max_depth world cam j i ps =
     (let (pixel_color, s0) = ps;
          (d1, s1) = random_double (lib_rand L) (lib_RAND_MAX L) s0;
          u = (real_of_int i + d1) / real_of_int (image_width - 1);
          (d2, s2) = random_double (lib_rand L) (lib_RAND_MAX L) s1;
          v = (real_of_int j + d2) / real_of_int (image_height - 1);
          (r, s3) = lib_get_ray L cam u v s2;
          (c, s4) = ray_color world (lib_scatter L) r max_depth s3
      in (vec3_add pixel_color c, s4))"

text \<open>One pixel: the body of the loop over \<open>i\<close>, lines 114 to 122.\<close>

definition process_pixel ::
  "'s library \<Rightarrow> int \<Rightarrow> int \<Rightarrow> int \<Rightarrow> int \<Rightarrow> hittable \<Rightarrow> camera \<Rightarrow> int \<Rightarrow> int \<Rightarrow>
   color list list \<times> 's globals \<Rightarrow> color list list \<times> 's globals" where
  "process_pixel L image_width image_height samples_per_pixel max_depth world cam j i mg =
     (let (output_matrix, g) = mg;
          (pixel_color, s') =
            fold (\<lambda>s. take_sample L image_width image_height max_depth world cam j i)
              [0 .. samples_per_pixel - 1] (Vec3 0 0 0, rng g)
      in (matrix_store output_matrix j i (lib_format_color L pixel_color samples_per_pixel),
          g\<lparr>rng := s'\<rparr>))"

text \<open>One row: the body of the loop over \<open>j\<close>, lines 111 to 123.\<close>

definition process_row ::
  "'s library \<Rightarrow> int \<Rightarrow> int \<Rightarrow> int \<Rightarrow> int \<Rightarrow> hittable \<Rightarrow> camera \<Rightarrow> int \<Rightarrow>
   color list list \<times> 's globals \<Rightarrow> color list list \<times> 's globals" where
  "process_row L image_width image_height samples_per_pixel max_depth world cam j mg =
     (let (output_matrix, g) = mg
      in fold (process_pixel L image_width image_height samples_per_pixel max_depth world cam j)
           [0 .. image_width - 1] (output_matrix, update_progress g))"

definition process_matrix_rows ::
  "'s library \<Rightarrow> int \<Rightarrow> int \<Rightarrow> int \<Rightarrow> int \<Rightarrow> color list list \<Rightarrow> int \<Rightarrow> int \<Rightarrow>
   hittable \<Rightarrow> camera \<Rightarrow> 's globals \<Rightarrow> color list list \<times> 's globals" where
  "process_matrix_rows L start_row end_row image_width image_height output_matrix
       samples_per_pixel max_depth world cam g =
     fold (\<lambda>j (m, g).
             fold (process_pixel L image_width image_height samples_per_pixel max_depth
                     world cam j)
               [0 .. image_width - 1] (m, update_progress g))
       [start_row .. end_row] (output_matrix, g)"

text \<open>
  The loop of \<^verbatim>\<open>multithreaded_raytracing\<close> that starts the workers (lines 130 to 135):
  \<open>tc\<close> counts down from \<open>thread_count - 1\<close> to \<open>0\<close>, and every round records the band
  \<open>(cur_row, cur_row + row_segment - 1)\<close> given to the new worker.
\<close>

function thread_bands_loop :: "int \<Rightarrow> int \<Rightarrow> int \<Rightarrow> (int \<times> int) list \<Rightarrow> (int \<times> int) list" where
  "thread_bands_loop tc cur_row row_segment thread_list =
     (if tc \<ge> 0
      then thread_bands_loop (tc - 1) (cur_row + row_segment) row_segment
             (thread_list @ [(cur_row, cur_row + row_segment - 1)])
      else thread_list)"
  by pat_completeness auto

termination
  by (relation "measure (\<lambda>(tc, cur_row, row_segment, thread_list). nat (tc + 1))") auto

declare thread_bands_loop.simps [simp del]

text \<open>
  The bands for a worker count and an image height. The quotient of two \<^verbatim>\<open>int\<close>s is
  rounded towards zero (\<open>sdiv\<close>). A worker count of zero makes the C++ division undefined;
  that case is the \<open>None\<close> of \<open>multithreaded_raytracing\<close> below.
\<close>

definition thread_bands :: "int \<Rightarrow> int \<Rightarrow> (int \<times> int) list" where
  "thread_bands thread_count image_height =
     thread_bands_loop (thread_count - 1) 0 (image_height sdiv thread_count) []"

text \<open>The rows that the loop \<^verbatim>\<open>for (j = start_row; j <= end_row; j++)\<close> visits.\<close>

definition band_rows :: "int \<times> int \<Rightarrow> int list" where
  "band_rows band = [fst band .. snd band]"

text \<open>
  The workers run concurrently in the program and share the buffer, the random source and
  the progress counter. The model runs them one after the other, in an order that is a
  parameter of the run: \<open>sched\<close> is a list of numbers, and the next worker to run is the
  one at position \<open>p mod k\<close> among the \<open>k\<close> workers that have not run yet, \<open>p\<close> being the
  next number of the list; when the list is used up the remaining workers run in the order
  in which they were started. Every order of the workers is the result of some list, and
  every result is an order of all the workers. Interleavings in which the draws of two
  workers alternate are not represented.
\<close>

fun run_order :: "nat list \<Rightarrow> 'a list \<Rightarrow> 'a list" where
  "run_order sched [] = []"
| "run_order [] (w # ws) = w # ws"
| "run_order (p # sched) (w # ws) =
     (let k = p mod length (w # ws)
      in (w # ws) ! k # run_order sched (take k (w # ws) @ drop (Suc k) (w # ws)))"

definition multithreaded_raytracing ::
  "'s library \<Rightarrow> nat list \<Rightarrow> int \<Rightarrow> int \<Rightarrow> int \<Rightarrow> color list list \<Rightarrow> int \<Rightarrow> int \<Rightarrow>
   hittable \<Rightarrow> camera \<Rightarrow> 's globals \<Rightarrow> (color list list \<times> 's globals) option" where
  "multithreaded_raytracing L sched thread_count image_width image_height output_matrix
       samples_per_pixel max_depth world cam g =
     (if thread_count = 0 then None
      else Some (fold (\<lambda>band (m, g).
                         process_matrix_rows L (fst band) (snd band) image_width image_height m
                           samples_per_pixel max_depth world cam g)
                   (run_order sched (thread_bands thread_count image_height))
                   (output_matrix, g)))"

section \<open>Writing the image\<close>

text \<open>One pixel line of the file, line 186 of main.cpp.\<close>

definition pixel_line :: "color \<Rightarrow> string" where
  "pixel_line c =
     string_of_int (static_cast_int (vec3_x c)) @ '' '' @
     string_of_int (static_cast_int (vec3_y c)) @ '' '' @
     string_of_int (static_cast_int (vec3_z c))"

text \<open>
  The header written by line 181, the loop of lines 183 to 188 that appends one line per
  pixel to the text \<open>outdata\<close> written so far, and the whole text written to the file.
\<close>

definition ppm_header :: "int \<Rightarrow> int \<Rightarrow> string" where
  "ppm_header image_width image_height =
     ''P3'' @ [CHR 0x0A] @ string_of_int image_width @ '' '' @ string_of_int image_height @
     [CHR 0x0A] @ ''255'' @ [CHR 0x0A]"

definition dump_rows :: "int \<Rightarrow> int \<Rightarrow> color list list \<Rightarrow> string \<Rightarrow> string" where
  "dump_rows image_width image_height output_matrix outdata =
     fold (\<lambda>j outdata.
             fold (\<lambda>i outdata. outdata @ pixel_line (output_matrix ! nat j ! nat i) @ [CHR 0x0A])
               [0 .. image_width - 1] outdata)
       (rev [0 .. image_height - 1]) outdata"

definition dump_output :: "int \<Rightarrow> int \<Rightarrow> color list list \<Rightarrow> string" where
  "dump_output image_width image_height output_matrix =
     dump_rows image_width image_height output_matrix (ppm_header image_width image_height)"

text \<open>The text of the messages that the same loop writes to the standard error stream.\<close>

definition dump_progress :: "int \<Rightarrow> string \<Rightarrow> string" where
  "dump_progress image_height err =
     fold (\<lambda>j err. err @ [CHR 0x0D] @ ''Storing row: '' @ string_of_int j @ '' '')
       (rev [0 .. image_height - 1]) err"

section \<open>The program\<close>

text \<open>
  What a run of the program leaves behind: its exit status, the text on the standard error
  stream, and the contents of the file image.ppm when the run wrote it. The report of the
  processing time on the standard output depends on the processor clock and is left out.
\<close>

record outcome =
  exit_status :: int
  stderr_text :: string
  image_ppm :: "string option"

text \<open>
  The constants that main.cpp takes from its \<^verbatim>\<open>#define\<close> lines, as a record, so that the
  program can be run on a small image as well; \<open>macros\<close> holds the values of main.cpp.
\<close>

record config =
  THREAD_COUNT :: int
  IMAGE_WIDTH :: int
  ASPECT_RATIO :: real
  SAMPLES_PER_PIXEL :: int
  MAX_DEPTH :: int

definition macros :: config where
  "macros = \<lparr>THREAD_COUNT = 20, IMAGE_WIDTH = 300, ASPECT_RATIO = 1.5,
              SAMPLES_PER_PIXEL = 10, MAX_DEPTH = 30\<rparr>"

text \<open>
  What a run meets outside the program: the order in which its workers get to run,
  whether image.ppm can be opened for writing, and how many characters the file accepts
  before a write fails (\<open>None\<close> when no write fails). Running out of memory and failing to
  start a thread are not modelled.
\<close>

record run_env =
  env_sched :: "nat list"
  env_can_open :: bool
  env_write_limit :: "nat option"

text \<open>
  What reaches the file of a stream that accepts \<open>limit\<close> characters: once a write has
  failed the stream stays in its failed state and drops whatever is written later.
  main.cpp tests the stream once, after opening it (line 174), and never again.
\<close>

definition written :: "nat option \<Rightarrow> string \<Rightarrow> string" where
  "written limit outdata = (case limit of None \<Rightarrow> outdata | Some k \<Rightarrow> take k outdata)"

text \<open>
  The function \<^verbatim>\<open>main\<close> with the constants of the \<^verbatim>\<open>#define\<close> lines as the parameter
  \<open>cfg\<close>. The result \<open>None\<close> stands for a run that reaches the undefined division of
  \<open>multithreaded_raytracing\<close>; with the worker count of main.cpp it does not occur.
\<close>

definition main_with :: "'s library \<Rightarrow> config \<Rightarrow> run_env \<Rightarrow> 's \<Rightarrow> outcome option" where
  "main_with L cfg env s =
     (let aspect_ratio = ASPECT_RATIO cfg;
          image_width = IMAGE_WIDTH cfg;
          image_height = static_cast_int (real_of_int image_width / aspect_ratio);
          samples_per_pixel = SAMPLES_PER_PIXEL cfg;
          max_depth = MAX_DEPTH cfg;
          (world, s1) = random_scene (lib_rand L) (lib_RAND_MAX L) s;
          lookfrom = Vec3 13 2 3;
          lookat = Vec3 0 0 0;
          vup = Vec3 0 1 0;
          dist_to_focus = 10.0;
          aperture = 0.1;
          cam = camera lookfrom lookat vup 20 aspect_ratio aperture dist_to_focus;
          g = \<lparr>rng = s1, current_progress = 0, total_progress = image_height, cerr = []\<rparr>;
          output_matrix = image_matrix image_width image_height
      in case multithreaded_raytracing L (env_sched env) (THREAD_COUNT cfg) image_width
                image_height output_matrix samples_per_pixel max_depth
                (hittable_list_hit (lib_sphere_hit L) world) cam g of
           None \<Rightarrow> None
         | Some (rendered, g') \<Rightarrow>
             if \<not> env_can_open env then
               Some \<lparr>exit_status = 1,
                     stderr_text = cerr g' @ ''Error: output file could not be opened.'' @ [CHR 0x0A],
                     image_ppm = None\<rparr>
             else
               Some \<lparr>exit_status = 0,
                     stderr_text = dump_progress image_height (cerr g') @
                                   [CHR 0x0A] @ ''Done.'' @ [CHR 0x0A],
                     image_ppm = Some (written (env_write_limit env)
                                         (dump_output image_width image_height rendered))\<rparr>)"

definition main :: "'s library \<Rightarrow> run_env \<Rightarrow> 's \<Rightarrow> outcome option" where
  "main L env s = main_with L macros env s"

section \<open>Lines of text\<close>

text \<open>
  A text file seen as a list of lines: every line is followed by one newline character, and
  no line contains one.
\<close>

definition unlines :: "string list \<Rightarrow> string" where
  "unlines ls = concat (map (\<lambda>l. l @ [CHR 0x0A]) ls)"

definition is_line :: "string \<Rightarrow> bool" where
  "is_line l = (CHR 0x0A \<notin> set l)"

text \<open>
  The pixel lines of an image in the order of the file: the rows from \<open>image_height - 1\<close>
  down to \<open>0\<close>, and within a row the columns from \<open>0\<close> to \<open>image_width - 1\<close>.
\<close>

definition ppm_pixel_lines :: "int \<Rightarrow> int \<Rightarrow> color list list \<Rightarrow> string list" where
  "ppm_pixel_lines image_width image_height output_matrix =
     map (\<lambda>(j, i). pixel_line (output_matrix ! nat j ! nat i))
       (List.product (rev [0 .. image_height - 1]) [0 .. image_width - 1])"

text \<open>
  A buffer cell holds an encoded colour when each of its channels is at least \<open>0\<close> and
  below \<open>256\<close>, so that dropping the fractional part gives an integer from \<open>0\<close> to
  \<open>255\<close>.
\<close>

definition channel_ok :: "real \<Rightarrow> bool" where
  "channel_ok v = (0 \<le> v \<and> v < 256)"

definition color_ok :: "color \<Rightarrow> bool" where
  "color_ok c = (channel_ok (vec3_x c) \<and> channel_ok (vec3_y c) \<and> channel_ok (vec3_z c))"

definition buffer_ok :: "color list list \<Rightarrow> bool" where
  "buffer_ok output_matrix = (\<forall>row \<in> set output_matrix. \<forall>c \<in> set row. color_ok c)"

section \<open>Sample inputs\<close>

text \<open>
  A small world for trying the definitions: a floor that every ray pointing downwards hits,
  with a grey diffuse material that always scatters straight up and draws one number from
  a random source whose state is a counter.
\<close>

definition demo_rec :: hit_record where
  "demo_rec = \<lparr>hit_p = Vec3 0 0 0, hit_normal = Vec3 0 1 0,
                mat_ptr = lambertian (Vec3 0.5 0.5 0.5), hit_t = 1, front_face = True\<rparr>"

definition demo_floor :: hittable where
  "demo_floor r t_min t_max = (if vec3_y (direction r) < 0 then Some demo_rec else None)"

definition demo_scatter :: "nat scatter" where
  "demo_scatter m r rec s =
     (case m of
        lambertian albedo \<Rightarrow> (Some (albedo, \<lparr>origin = hit_p rec, direction = hit_normal rec\<rparr>), Suc s)
      | metal albedo fuzz \<Rightarrow> (None, s)
      | dielectric ir \<Rightarrow> (None, s))"

definition demo_absorb :: "nat scatter" where
  "demo_absorb m r rec s = (None, Suc s)"

definition demo_sphere_hit :: "sphere \<Rightarrow> hittable" where
  "demo_sphere_hit object r t_min t_max = None"

definition demo_down :: ray where
  "demo_down = \<lparr>origin = Vec3 0 1 0, direction = Vec3 0 (- 1) 0\<rparr>"

definition demo_up :: ray where
  "demo_up = \<lparr>origin = Vec3 0 0 0, direction = Vec3 0 1 0\<rparr>"

definition demo_level :: ray where
  "demo_level = \<lparr>origin = Vec3 0 0 0, direction = Vec3 1 0 0\<rparr>"

text \<open>
  A random source that alternates between \<open>0\<close> and \<open>16384\<close> with \<open>RAND_MAX = 32767\<close>,
  a camera that looks down for the lower half of the image plane and up for the upper half,
  and an encoder that scales the mean of the samples to \<open>255\<close>.
\<close>

definition demo_rand :: "nat \<Rightarrow> int \<times> nat" where
  "demo_rand s = (int (s mod 2) * 16384, Suc s)"

definition demo_get_ray :: "camera \<Rightarrow> real \<Rightarrow> real \<Rightarrow> nat \<Rightarrow> ray \<times> nat" where
  "demo_get_ray cam u v s = (if v < 0.5 then demo_down else demo_up, s)"

definition demo_format_color :: "color \<Rightarrow> int \<Rightarrow> color" where
  "demo_format_color pixel_color samples_per_pixel =
     vec3_scale (255 / real_of_int samples_per_pixel) pixel_color"

definition demo_library :: "nat library" where
  "demo_library = \<lparr>lib_rand = demo_rand, lib_RAND_MAX = 32767, lib_sphere_hit = demo_sphere_hit,
                    lib_scatter = demo_scatter, lib_get_ray = demo_get_ray,
                    lib_format_color = demo_format_color\<rparr>"

definition demo_camera :: camera where
  "demo_camera = camera (Vec3 0 1 0) (Vec3 0 0 0) (Vec3 0 1 0) 20 1.5 0.1 10"

definition demo_globals :: "nat globals" where
  "demo_globals = \<lparr>rng = 0, current_progress = 0, total_progress = 3, cerr = []\<rparr>"

definition demo_rendered :: "color list list" where
  "demo_rendered = [[Vec3 63.75 89.25 127.5, Vec3 63.75 89.25 127.5],
                    [Vec3 127.5 178.5 255, Vec3 127.5 178.5 255],
                    [Vec3 0 0 0, Vec3 0 0 0]]"

definition demo_image :: "color list list" where
  "demo_image = [[Vec3 0 0 0, Vec3 255.9 127.5 3], [Vec3 12 34 56, Vec3 255 255 255]]"





text \<open>
  Five surroundings of a run. In the first the workers run in the order in which they were
  started, the file opens and every write succeeds. In the second the worker started last
  runs first. The third gives another list for the order of the first. In the fourth the
  file cannot be opened. In the fifth the file opens and accepts five characters.
\<close>

definition demo_env :: run_env where
  "demo_env = \<lparr>env_sched = [], env_can_open = True, env_write_limit = None\<rparr>"



definition demo_env_no_open :: run_env where
  "demo_env_no_open = \<lparr>env_sched = [], env_can_open = False, env_write_limit = None\<rparr>"

definition demo_env_disk_full :: run_env where
  "demo_env_disk_full = \<lparr>env_sched = [], env_can_open = True, env_write_limit = Some 5\<rparr>"

section \<open>Properties of the path tracer\<close>

lemma ray_color_fuel_enough:
  "nat depth < n \<Longrightarrow>
   ray_color_fuel n world scatter r depth s = Some (ray_color world scatter r depth s)"
proof (induction n arbitrary: r depth s)
  case 0
  then show ?case by simp
next
  case (Suc n)
  show ?case
  proof (cases "depth \<le> 0")
    case True
    then show ?thesis by (simp add: ray_color.simps)
  next
    case False
    with Suc.prems have "nat (depth - 1) < n" by simp
    then have IH: "\<And>r' s'. ray_color_fuel n world scatter r' (depth - 1) s' =
        Some (ray_color world scatter r' (depth - 1) s')"
      by (rule Suc.IH)
    from False show ?thesis
      by (simp add: ray_color.simps [of world scatter r depth s] IH
          split: option.splits prod.splits)
  qed
qed

lemma sky_color_eq:
  "sky_color r =
     Vec3 (1 - 0.25 * (vec3_y (unit_vector (direction r)) + 1))
          (1 - 0.15 * (vec3_y (unit_vector (direction r)) + 1)) 1"
  by (simp add: sky_color_def Let_def vec3_add_def vec3_scale_def algebra_simps)

lemma demo_up_color: "0 < depth \<Longrightarrow> ray_color demo_floor demo_scatter demo_up depth s = (Vec3 0.5 0.7 1, s)"
  by (simp add: ray_color.simps demo_floor_def demo_up_def sky_color_eq unit_vector_def vec3_length_def vec3_scale_def)

lemma demo_down_hit: "demo_floor demo_down MIN_HIT_LIMIT infinity = Some demo_rec"
  by (simp add: demo_floor_def demo_down_def)

lemma demo_down_scatter:
  "demo_scatter (mat_ptr demo_rec) demo_down demo_rec s = (Some (Vec3 0.5 0.5 0.5, demo_up), Suc s)"
  by (simp add: demo_scatter_def demo_rec_def demo_up_def)

lemma demo_down_color: "ray_color demo_floor demo_scatter demo_down 2 0 = (Vec3 0.25 0.35 0.5, 1)"
  by (subst ray_color.simps) (simp add: demo_down_hit demo_down_scatter demo_up_color vec3_mul_def)

text \<open>
  C1. For a positive \<open>depth\<close>, when the scene reports a hit for the ray \<open>r\<close> in the
  interval from \<open>MIN_HIT_LIMIT = 0.001\<close> to \<open>infinity\<close>: if the struck material scatters,
  giving an attenuation and a scattered ray, the colour of \<open>r\<close> is the component-wise
  product of the attenuation with the colour of the scattered ray at \<open>depth - 1\<close>; if the
  material absorbs, the colour is black.
\<close>

theorem ray_color_hit:
  assumes "0 < depth" and "world r MIN_HIT_LIMIT infinity = Some rec"
  shows "MIN_HIT_LIMIT = 0.001 \<and>
         (\<forall>attenuation scattered s'.
            scatter (mat_ptr rec) r rec s = (Some (attenuation, scattered), s') \<longrightarrow>
            ray_color world scatter r depth s =
              (vec3_mul attenuation (fst (ray_color world scatter scattered (depth - 1) s')),
               snd (ray_color world scatter scattered (depth - 1) s'))) \<and>
         (\<forall>s'. scatter (mat_ptr rec) r rec s = (None, s') \<longrightarrow>
            ray_color world scatter r depth s = (Vec3 0 0 0, s'))"
  using assms
  by (simp add: ray_color.simps [of world scatter r depth s] MIN_HIT_LIMIT_def split: prod.splits)

theorem ray_color_hit_witness:
  "(0::int) < 2 \<and> demo_floor demo_down MIN_HIT_LIMIT infinity = Some demo_rec \<and>
   ray_color demo_floor demo_scatter demo_down 2 0 = (Vec3 0.25 0.35 0.5, 1) \<and>
   ray_color demo_floor demo_absorb demo_down 2 0 = (Vec3 0 0 0, 1)"
proof -
  have h: "demo_floor demo_down MIN_HIT_LIMIT infinity = Some demo_rec"
    by (simp add: demo_floor_def demo_down_def)
  have sc: "demo_scatter (mat_ptr demo_rec) demo_down demo_rec 0 = (Some (Vec3 0.5 0.5 0.5, demo_up), 1)"
    by (simp add: demo_scatter_def demo_rec_def demo_up_def)
  have ab: "demo_absorb (mat_ptr demo_rec) demo_down demo_rec 0 = (None, 1)"
    by (simp add: demo_absorb_def)
  from ray_color_hit [of 2 demo_floor demo_down demo_rec demo_scatter 0] h sc
  have "ray_color demo_floor demo_scatter demo_down 2 0 = (Vec3 0.25 0.35 0.5, 1)"
    by (simp add: demo_up_color vec3_mul_def)
  moreover from ray_color_hit [of 2 demo_floor demo_down demo_rec demo_absorb 0] h ab
  have "ray_color demo_floor demo_absorb demo_down 2 0 = (Vec3 0 0 0, 1)"
    by simp
  ultimately show ?thesis using h by simp
qed

text \<open>
  C2. When the bounce budget \<open>depth\<close> is zero or negative, \<open>ray_color\<close> returns exactly
  black, whatever the scene, the materials and the ray are, and draws no random number.
\<close>

theorem ray_color_depth_exhausted:
  "depth \<le> 0 \<Longrightarrow> ray_color world scatter r depth s = (Vec3 0 0 0, s)"
  by (simp add: ray_color.simps)

theorem ray_color_depth_exhausted_witness:
  "(0::int) \<le> 0 \<and> ray_color demo_floor demo_scatter demo_down 0 (5::nat) = (Vec3 0 0 0, 5)"
  using ray_color_depth_exhausted [of 0 demo_floor demo_scatter demo_down 5] by simp

text \<open>
  C3, as amended. For a positive \<open>depth\<close>, a ray that hits nothing (in particular any ray
  in a scene without objects) gets the sky gradient \<open>(1 - t) * (1, 1, 1) + t * (0.5, 0.7, 1.0)\<close>
  with \<open>t = 0.5 * (y + 1)\<close>, where \<open>y\<close> is the vertical component of the normalised
  direction. The result is never black. It is white for a ray that points straight down
  (\<open>y = -1\<close>), the light blue \<open>(0.5, 0.7, 1.0)\<close> for a ray that points straight up
  (\<open>y = 1\<close>), and the half-way blend \<open>(0.75, 0.85, 1.0)\<close> for a level ray (\<open>y = 0\<close>).
\<close>

theorem ray_color_miss:
  assumes "0 < depth"
    and "world r MIN_HIT_LIMIT infinity = None \<or> world = hittable_list_hit sphere_hit []"
  shows "ray_color world scatter r depth s =
           (vec3_add (vec3_scale (1 - 0.5 * (vec3_y (unit_vector (direction r)) + 1)) (Vec3 1 1 1))
                     (vec3_scale (0.5 * (vec3_y (unit_vector (direction r)) + 1)) (Vec3 0.5 0.7 1)), s) \<and>
         fst (ray_color world scatter r depth s) \<noteq> Vec3 0 0 0 \<and>
         (vec3_y (unit_vector (direction r)) = - 1 \<longrightarrow>
            fst (ray_color world scatter r depth s) = Vec3 1 1 1) \<and>
         (vec3_y (unit_vector (direction r)) = 0 \<longrightarrow>
            fst (ray_color world scatter r depth s) = Vec3 0.75 0.85 1) \<and>
         (vec3_y (unit_vector (direction r)) = 1 \<longrightarrow>
            fst (ray_color world scatter r depth s) = Vec3 0.5 0.7 1)"
proof -
  let ?y = "vec3_y (unit_vector (direction r))"
  from assms(2) have miss: "world r MIN_HIT_LIMIT infinity = None"
    by (auto simp: hittable_list_hit_def)
  with assms(1) have rc: "ray_color world scatter r depth s = (sky_color r, s)"
    by (simp add: ray_color.simps [of world scatter r depth s])
  have form: "sky_color r =
      vec3_add (vec3_scale (1 - 0.5 * (?y + 1)) (Vec3 1 1 1))
               (vec3_scale (0.5 * (?y + 1)) (Vec3 0.5 0.7 1))"
    by (simp add: sky_color_def Let_def)
  have comp: "sky_color r = Vec3 (1 - 0.25 * (?y + 1)) (1 - 0.15 * (?y + 1)) 1"
    by (rule sky_color_eq)
  have nonblack: "sky_color r \<noteq> Vec3 0 0 0"
    by (simp add: comp)
  have low: "?y = - 1 \<longrightarrow> sky_color r = Vec3 1 1 1"
    by (simp add: comp)
  have mid: "?y = 0 \<longrightarrow> sky_color r = Vec3 0.75 0.85 1"
    by (simp add: comp)
  have high: "?y = 1 \<longrightarrow> sky_color r = Vec3 0.5 0.7 1"
    by (simp add: comp)
  from form nonblack low mid high show ?thesis
    unfolding rc fst_conv by simp
qed

theorem ray_color_miss_witness:
  "(0::int) < 1 \<and> demo_floor demo_up MIN_HIT_LIMIT infinity = None \<and>
   ray_color demo_floor demo_scatter demo_up 1 0 = (Vec3 0.5 0.7 1, 0) \<and>
   ray_color (hittable_list_hit demo_sphere_hit []) demo_scatter demo_down 1 0 = (Vec3 1 1 1, 0)"
proof -
  have h: "demo_floor demo_up MIN_HIT_LIMIT infinity = None"
    by (simp add: demo_floor_def demo_up_def)
  have u: "vec3_y (unit_vector (direction demo_up)) = 1"
    by (simp add: demo_up_def unit_vector_def vec3_length_def vec3_scale_def)
  have d: "vec3_y (unit_vector (direction demo_down)) = - 1"
    by (simp add: demo_down_def unit_vector_def vec3_length_def vec3_scale_def)
  from ray_color_miss [of 1 demo_floor demo_up demo_sphere_hit demo_scatter 0] h u
  have "ray_color demo_floor demo_scatter demo_up 1 0 = (Vec3 0.5 0.7 1, 0)"
    by (simp add: vec3_add_def vec3_scale_def)
  moreover
  from ray_color_miss [of 1 "hittable_list_hit demo_sphere_hit []" demo_down demo_sphere_hit demo_scatter 0] d
  have "ray_color (hittable_list_hit demo_sphere_hit []) demo_scatter demo_down 1 0 = (Vec3 1 1 1, 0)"
    by (simp add: vec3_add_def vec3_scale_def)
  ultimately show ?thesis using h by simp
qed

text \<open>
  C3 as first stated says that the gradient is white at the horizon. A level ray in a scene
  without objects gets \<open>(0.75, 0.85, 1.0)\<close>, which is not white.
\<close>

theorem ray_color_level_not_white:
  "fst (ray_color (hittable_list_hit demo_sphere_hit []) demo_scatter demo_level 1 0) = Vec3 0.75 0.85 1 \<and>
   fst (ray_color (hittable_list_hit demo_sphere_hit []) demo_scatter demo_level 1 0) \<noteq> Vec3 1 1 1"
  by (simp add: ray_color.simps hittable_list_hit_def sky_color_eq demo_level_def
      unit_vector_def vec3_length_def vec3_scale_def)

text \<open>
  C4. \<open>ray_color\<close> returns for every scene, scatter function, ray, integer \<open>depth\<close> and
  state: a budget of more than \<open>depth\<close> nested calls (one call for a \<open>depth\<close> that is not
  positive) is never used up, and the value computed within that budget is the value of
  \<open>ray_color\<close>. The recursion is accepted above with the measure \<open>nat depth\<close>, which
  the only recursive call, at \<open>depth - 1\<close>, makes smaller.
\<close>

theorem ray_color_terminates:
  "nat depth < n \<Longrightarrow>
   \<exists>c s'. ray_color_fuel n world scatter r depth s = Some (c, s') \<and>
          ray_color world scatter r depth s = (c, s')"
  by (cases "ray_color world scatter r depth s") (simp add: ray_color_fuel_enough)

theorem ray_color_terminates_witness:
  "nat 2 < (3::nat) \<and>
   ray_color_fuel 3 demo_floor demo_scatter demo_down 2 0 = Some (Vec3 0.25 0.35 0.5, 1)"
proof -
  from ray_color_terminates [of 2 3 demo_floor demo_scatter demo_down 0]
  obtain c s' where a: "ray_color_fuel 3 demo_floor demo_scatter demo_down 2 0 = Some (c, s')"
    and b: "ray_color demo_floor demo_scatter demo_down 2 0 = (c, s')" by auto
  from a b demo_down_color show ?thesis by simp
qed

section \<open>Properties of the render scheduler\<close>

lemma sdiv_nonneg_eq_div: "0 \<le> (h::int) \<Longrightarrow> 0 < n \<Longrightarrow> h sdiv n = h div n"
  by (simp add: signed_divide_int_def sgn_if)

lemma thread_bands_loop_eq:
  "- 1 \<le> tc \<Longrightarrow>
   thread_bands_loop tc cur_row row_segment thread_list =
     thread_list @
     map (\<lambda>k. (cur_row + int k * row_segment, cur_row + int k * row_segment + row_segment - 1))
       [0 ..< nat (tc + 1)]"
proof (induction tc cur_row row_segment thread_list rule: thread_bands_loop.induct)
  case (1 tc cur_row row_segment thread_list)
  show ?case
  proof (cases "tc \<ge> 0")
    case False
    with "1.prems" have "nat (tc + 1) = 0" by simp
    with False show ?thesis by (simp add: thread_bands_loop.simps [of tc])
  next
    case True
    then have n: "nat (tc + 1) = Suc (nat (tc - 1 + 1))" by simp
    from True have "thread_bands_loop tc cur_row row_segment thread_list =
        thread_bands_loop (tc - 1) (cur_row + row_segment) row_segment
          (thread_list @ [(cur_row, cur_row + row_segment - 1)])"
      by (simp add: thread_bands_loop.simps [of tc])
    also from True have "\<dots> = (thread_list @ [(cur_row, cur_row + row_segment - 1)]) @
        map (\<lambda>k. (cur_row + row_segment + int k * row_segment,
                  cur_row + row_segment + int k * row_segment + row_segment - 1))
          [0 ..< nat (tc - 1 + 1)]"
      by (intro "1.IH") simp_all
    also have "\<dots> = thread_list @
        map (\<lambda>k. (cur_row + int k * row_segment, cur_row + int k * row_segment + row_segment - 1))
          [0 ..< nat (tc + 1)]"
      unfolding n map_upt_Suc by (simp add: algebra_simps)
    finally show ?thesis .
  qed
qed

lemma thread_bands_eq:
  assumes "0 < n" and "0 \<le> h"
  shows "thread_bands n h =
           map (\<lambda>k. (int k * (h div n), int k * (h div n) + h div n - 1)) [0 ..< nat n]"
  using assms by (simp add: thread_bands_def thread_bands_loop_eq sdiv_nonneg_eq_div)

lemma concat_bands_upto:
  "0 \<le> seg \<Longrightarrow>
   concat (map (\<lambda>k. [int k * seg .. int k * seg + seg - 1]) [0 ..< m]) = [0 .. int m * seg - 1]"
proof (induction m)
  case 0
  then show ?case by simp
next
  case (Suc m)
  have le: "0 \<le> int m * seg" using Suc.prems by simp
  have "[0 .. int (Suc m) * seg - 1] = [0 .. int m * seg - 1] @ [int m * seg .. int (Suc m) * seg - 1]"
    using upto_split1 [of 0 "int m * seg" "int (Suc m) * seg - 1"] le Suc.prems
    by (cases "seg = 0") (simp_all add: algebra_simps)
  moreover have "int (Suc m) * seg - 1 = int m * seg + seg - 1" by (simp add: algebra_simps)
  ultimately show ?case using Suc by simp
qed

lemma band_rows_nth:
  assumes "0 < n" and "0 \<le> h" and "k < nat n"
  shows "thread_bands n h ! k = (int k * (h div n), int k * (h div n) + h div n - 1)"
    and "band_rows (thread_bands n h ! k) = [int k * (h div n) .. int k * (h div n) + h div n - 1]"
  using assms by (simp_all add: thread_bands_eq band_rows_def)

lemma concat_thread_bands:
  assumes "0 < n" and "0 \<le> h"
  shows "concat (map band_rows (thread_bands n h)) = [0 .. n * (h div n) - 1]"
proof -
  have seg: "0 \<le> h div n" using assms by (simp add: pos_imp_zdiv_nonneg_iff)
  have "map band_rows (thread_bands n h) =
        map (\<lambda>k. [int k * (h div n) .. int k * (h div n) + h div n - 1]) [0 ..< nat n]"
    using assms by (simp add: thread_bands_eq band_rows_def o_def)
  then show ?thesis using concat_bands_upto [OF seg, of "nat n"] assms by simp
qed

lemma bands_disjoint:
  assumes "0 < n" and "0 \<le> h" and "k < l" and "l < nat n"
  shows "set (band_rows (thread_bands n h ! k)) \<inter> set (band_rows (thread_bands n h ! l)) = {}"
proof -
  have seg: "0 \<le> h div n" using assms by (simp add: pos_imp_zdiv_nonneg_iff)
  from assms have "int k + 1 \<le> int l" by simp
  then have "(int k + 1) * (h div n) \<le> int l * (h div n)"
    using seg by (rule mult_right_mono)
  then have "int k * (h div n) + h div n - 1 < int l * (h div n)"
    by (simp add: algebra_simps)
  moreover from assms have "k < nat n" by simp
  ultimately show ?thesis
    using assms by (auto simp: band_rows_nth(1) band_rows_def)
qed

lemma thread_bands_in_range:
  assumes "0 < n" and "0 \<le> h" and "band \<in> set (thread_bands n h)" and "j \<in> set (band_rows band)"
  shows "0 \<le> j \<and> j < h"
proof -
  from assms(3,4) have "j \<in> set (concat (map band_rows (thread_bands n h)))" by auto
  then have "0 \<le> j" and "j \<le> n * (h div n) - 1"
    by (simp_all add: concat_thread_bands [OF assms(1,2)])
  moreover have "n * (h div n) \<le> h"
  proof -
    have "n * (h div n) = h - h mod n" by (simp add: minus_mod_eq_mult_div)
    moreover have "0 \<le> h mod n" using assms(1) by simp
    ultimately show ?thesis by simp
  qed
  ultimately show ?thesis by simp
qed

lemma thread_bands_partition:
  assumes "0 < n" and "0 \<le> h"
  shows "length (thread_bands n h) = nat n \<and>
         (\<forall>k < nat n.
            thread_bands n h ! k = (int k * (h div n), int k * (h div n) + h div n - 1) \<and>
            band_rows (thread_bands n h ! k) = [int k * (h div n) .. int k * (h div n) + h div n - 1] \<and>
            int (length (band_rows (thread_bands n h ! k))) = h div n) \<and>
         concat (map band_rows (thread_bands n h)) = [0 .. n * (h div n) - 1] \<and>
         (\<forall>k l. k < l \<and> l < nat n \<longrightarrow>
            set (band_rows (thread_bands n h ! k)) \<inter> set (band_rows (thread_bands n h ! l)) = {}) \<and>
         (\<Union>band \<in> set (thread_bands n h). set (band_rows band)) = {0 .. n * (h div n) - 1} \<and>
         (n dvd h \<longrightarrow>
            (\<forall>j \<in> {0 .. h - 1}. \<exists>!k. k < nat n \<and> j \<in> set (band_rows (thread_bands n h ! k)))) \<and>
         (\<not> n dvd h \<longrightarrow>
            (\<forall>j \<in> {h - h mod n .. h - 1}. \<forall>band \<in> set (thread_bands n h). j \<notin> set (band_rows band)) \<and>
            int (card {h - h mod n .. h - 1}) = h mod n \<and> 0 < h mod n)"
proof -
  let ?B = "thread_bands n h"
  have seg: "0 \<le> h div n" using assms by (simp add: pos_imp_zdiv_nonneg_iff)
  have len: "length ?B = nat n"
    using assms by (simp add: thread_bands_eq)
  have each: "\<forall>k < nat n.
      ?B ! k = (int k * (h div n), int k * (h div n) + h div n - 1) \<and>
      band_rows (?B ! k) = [int k * (h div n) .. int k * (h div n) + h div n - 1] \<and>
      int (length (band_rows (?B ! k))) = h div n"
    using assms seg by (simp add: band_rows_nth(1) band_rows_def)
  have cat: "concat (map band_rows ?B) = [0 .. n * (h div n) - 1]"
    by (rule concat_thread_bands [OF assms])
  have disj: "\<forall>k l. k < l \<and> l < nat n \<longrightarrow>
      set (band_rows (?B ! k)) \<inter> set (band_rows (?B ! l)) = {}"
    using bands_disjoint [OF assms] by blast
  have "(\<Union>band \<in> set ?B. set (band_rows band)) = set (concat (map band_rows ?B))"
    by simp
  then have un: "(\<Union>band \<in> set ?B. set (band_rows band)) = {0 .. n * (h div n) - 1}"
    by (simp only: cat set_upto)
  have even: "n dvd h \<longrightarrow>
      (\<forall>j \<in> {0 .. h - 1}. \<exists>!k. k < nat n \<and> j \<in> set (band_rows (?B ! k)))"
  proof (intro impI ballI)
    fix j assume d: "n dvd h" and j: "j \<in> {0 .. h - 1}"
    from d have "n * (h div n) = h" by simp
    with j un have "j \<in> (\<Union>band \<in> set ?B. set (band_rows band))" by simp
    then obtain band where "band \<in> set ?B" and jb: "j \<in> set (band_rows band)" by blast
    then obtain k where k: "k < nat n" and "band = ?B ! k"
      using len by (metis in_set_conv_nth)
    with jb have ex: "k < nat n \<and> j \<in> set (band_rows (?B ! k))" by simp
    show "\<exists>!k. k < nat n \<and> j \<in> set (band_rows (?B ! k))"
    proof (rule ex1I [of _ k])
      show "k < nat n \<and> j \<in> set (band_rows (?B ! k))" by (rule ex)
    next
      fix l assume l: "l < nat n \<and> j \<in> set (band_rows (?B ! l))"
      show "l = k"
      proof (rule ccontr)
        assume "l \<noteq> k"
        then consider "l < k" | "k < l" by linarith
        then show False
        proof cases
          case 1
          with disj k have "set (band_rows (?B ! l)) \<inter> set (band_rows (?B ! k)) = {}" by blast
          with l ex show False by blast
        next
          case 2
          with disj l have "set (band_rows (?B ! k)) \<inter> set (band_rows (?B ! l)) = {}" by blast
          with l ex show False by blast
        qed
      qed
    qed
  qed
  have rest: "n * (h div n) = h - h mod n"
    by (simp add: minus_mod_eq_mult_div)
  have odd: "\<not> n dvd h \<longrightarrow>
      (\<forall>j \<in> {h - h mod n .. h - 1}. \<forall>band \<in> set ?B. j \<notin> set (band_rows band)) \<and>
      int (card {h - h mod n .. h - 1}) = h mod n \<and> 0 < h mod n"
  proof
    assume nd: "\<not> n dvd h"
    have m0: "0 \<le> h mod n" using assms(1) by simp
    from nd have "h mod n \<noteq> 0" by (simp add: dvd_eq_mod_eq_0)
    with m0 have pos: "0 < h mod n" by simp
    have out: "\<forall>j \<in> {h - h mod n .. h - 1}. \<forall>band \<in> set ?B. j \<notin> set (band_rows band)"
    proof (intro ballI notI)
      fix j band assume "j \<in> {h - h mod n .. h - 1}" "band \<in> set ?B" "j \<in> set (band_rows band)"
      then have "j \<in> (\<Union>band \<in> set ?B. set (band_rows band))" and "h - h mod n \<le> j" by auto
      then show False unfolding un rest by simp
    qed
    have "int (card {h - h mod n .. h - 1}) = h mod n" using m0 by simp
    with out pos show "(\<forall>j \<in> {h - h mod n .. h - 1}. \<forall>band \<in> set ?B. j \<notin> set (band_rows band)) \<and>
      int (card {h - h mod n .. h - 1}) = h mod n \<and> 0 < h mod n" by blast
  qed
  from len each cat disj un even odd show ?thesis by blast
qed

lemma thread_bands_3_7: "thread_bands 3 7 = [(0, 1), (2, 3), (4, 5)]"
  by (simp add: thread_bands_def thread_bands_loop.simps signed_divide_int_def)

text \<open>Whatever the list \<open>sched\<close> is, the workers that run are the workers that were started.\<close>

lemma mset_run_order: "mset (run_order sched ws) = mset ws"
proof (induction sched ws rule: run_order.induct)
  case (1 sched)
  then show ?case by simp
next
  case (2 w ws)
  then show ?case by simp
next
  case (3 p sched w ws)
  let ?xs = "w # ws"
  let ?k = "p mod length ?xs"
  have k: "?k < length ?xs" by simp
  have IH: "mset (run_order sched (take ?k ?xs @ drop (Suc ?k) ?xs)) =
      mset (take ?k ?xs @ drop (Suc ?k) ?xs)"
    by (rule "3.IH") simp
  have "mset ?xs = mset (take ?k ?xs @ ?xs ! ?k # drop (Suc ?k) ?xs)"
    using id_take_nth_drop [OF k] by simp
  then have "mset ?xs = add_mset (?xs ! ?k) (mset (take ?k ?xs @ drop (Suc ?k) ?xs))"
    by simp
  with IH show ?case
    by (simp only: run_order.simps Let_def mset.simps)
qed

lemma set_run_order: "set (run_order sched ws) = set ws"
  using mset_run_order [of sched ws] by (rule mset_eq_setD)

lemma length_run_order: "length (run_order sched ws) = length ws"
  using mset_run_order [of sched ws] by (rule mset_eq_length)


section \<open>Properties of the scene generator\<close>








lemma fold_appends:
  assumes "\<And>x w s. x \<in> set xs \<Longrightarrow> \<exists>new s'. f x (w, s) = (w @ new, s') \<and> Q x new"
  shows "\<exists>cells s'. fold f xs (w, s) = (w @ concat cells, s') \<and> length cells = length xs \<and>
           (\<forall>k < length xs. Q (xs ! k) (cells ! k))"
  using assms
proof (induction xs arbitrary: w s)
  case Nil
  then show ?case by simp
next
  case (Cons x xs)
  from Cons.prems [of x w s] obtain new s1 where
    step: "f x (w, s) = (w @ new, s1)" and q: "Q x new" by auto
  from Cons.IH [of "w @ new" s1] Cons.prems obtain cells s' where
    rest: "fold f xs (w @ new, s1) = ((w @ new) @ concat cells, s')"
    and len: "length cells = length xs" and qs: "\<forall>k < length xs. Q (xs ! k) (cells ! k)"
    by auto
  have "\<forall>k < length (x # xs). Q ((x # xs) ! k) ((new # cells) ! k)"
    using q qs by (auto simp: nth_Cons split: nat.splits)
  with step rest len show ?case
    by (intro exI [of _ "new # cells"] exI [of _ s']) simp
qed













section \<open>Properties of the image buffer\<close>

lemma fill_row_zero:
  "fold (\<lambda>i row. row[nat i := vec3_zero]) is (replicate n (Vec3 0 0 0)) = replicate n (Vec3 0 0 0)"
proof (induction "is")
  case Nil
  then show ?case by simp
next
  case (Cons i "is")
  have "(replicate n (Vec3 0 0 0))[nat i := vec3_zero] = replicate n (Vec3 0 0 0)"
    by (cases "nat i < n") (auto simp: vec3_zero_def list_eq_iff_nth_eq nth_list_update)
  with Cons show ?case by simp
qed

lemma fill_rows:
  "fold (\<lambda>j arr. arr[nat j := row]) js arr =
     map (\<lambda>k. if k \<in> nat ` set js then row else arr ! k) [0 ..< length arr]"
proof (induction js arbitrary: arr)
  case Nil
  then show ?case by (simp add: map_nth)
next
  case (Cons j js)
  show ?case
    unfolding fold_Cons o_apply Cons.IH
    by (auto simp: nth_list_update)
qed

lemma image_matrix_eq:
  "image_matrix width height = replicate (nat height) (replicate (nat width) (Vec3 0 0 0))"
proof -
  have "image_matrix width height =
      fold (\<lambda>j arr. arr[nat j := replicate (nat width) (Vec3 0 0 0)]) (rev [0 .. height - 1])
        (replicate (nat height) [])"
    by (simp add: image_matrix_def fill_row_zero)
  also have "\<dots> = map (\<lambda>k. replicate (nat width) (Vec3 0 0 0)) [0 ..< nat height]"
  proof -
    have "\<And>k. k < nat height \<Longrightarrow> k \<in> nat ` {0 .. height - 1}"
    proof -
      fix k assume "k < nat height"
      then have "int k \<in> {0 .. height - 1}" by simp
      then have "nat (int k) \<in> nat ` {0 .. height - 1}" by (rule imageI)
      then show "k \<in> nat ` {0 .. height - 1}" by simp
    qed
    then show ?thesis by (simp add: fill_rows)
  qed
  also have "\<dots> = replicate (nat height) (replicate (nat width) (Vec3 0 0 0))"
    by (simp add: map_replicate_const)
  finally show ?thesis .
qed

text \<open>A worker leaves every row outside its band as it found it.\<close>

lemma fold_keeps:
  assumes "\<And>x a. x \<in> set xs \<Longrightarrow> Q (f x a) = Q a"
  shows "Q (fold f xs a) = Q a"
  using assms by (induction xs arbitrary: a) simp_all

lemma matrix_store_length: "length (matrix_store m j i v) = length m"
  by (simp add: matrix_store_def)

lemma matrix_store_row_length: "length (matrix_store m j i v ! k) = length (m ! k)"
  by (cases "k < length m") (auto simp: matrix_store_def nth_list_update)

lemma matrix_store_other_row: "int k \<noteq> j \<Longrightarrow> matrix_store m j i v ! k = m ! k"
  by (auto simp: matrix_store_def)

lemma process_pixel_other_row:
  "int k \<noteq> j \<Longrightarrow> fst (process_pixel L w h spp md world cam j i mg) ! k = fst mg ! k"
  by (simp add: process_pixel_def Let_def matrix_store_other_row split: prod.splits)

lemma process_pixel_length:
  "length (fst (process_pixel L w h spp md world cam j i mg)) = length (fst mg)"
  by (simp add: process_pixel_def Let_def matrix_store_length split: prod.splits)

lemma process_pixel_row_length:
  "length (fst (process_pixel L w h spp md world cam j i mg) ! k) = length (fst mg ! k)"
  by (simp add: process_pixel_def Let_def matrix_store_row_length split: prod.splits)

lemma process_matrix_rows_other_row:
  fixes L :: "'s library"
  assumes "int k \<notin> set [start_row .. end_row]"
  shows "fst (process_matrix_rows L start_row end_row w h m spp md world cam g) ! k = m ! k"
proof -
  have "fst (fold (\<lambda>j (m, g). fold (process_pixel L w h spp md world cam j) [0 .. w - 1]
                (m, update_progress g)) [start_row .. end_row] (m, g)) ! k = fst (m, g) ! k"
  proof (rule fold_keeps [where Q = "\<lambda>mg. fst mg ! k"])
    fix j and a :: "color list list \<times> 's globals"
    assume "j \<in> set [start_row .. end_row]"
    with assms have ne: "int k \<noteq> j" by auto
    obtain m0 g0 where a: "a = (m0, g0)" by (cases a)
    have "fst (fold (process_pixel L w h spp md world cam j) [0 .. w - 1] (m0, update_progress g0)) ! k
          = fst (m0, update_progress g0) ! k"
      by (rule fold_keeps [where Q = "\<lambda>mg. fst mg ! k"]) (simp add: process_pixel_other_row ne)
    then show "fst ((case a of (m, g) \<Rightarrow> fold (process_pixel L w h spp md world cam j) [0 .. w - 1]
                (m, update_progress g))) ! k = fst a ! k"
      by (simp add: a)
  qed
  then show ?thesis by (simp add: process_matrix_rows_def)
qed

lemma multithreaded_raytracing_other_row:
  fixes L :: "'s library"
  assumes "multithreaded_raytracing L sched n w h m spp md world cam g = Some (m', g')"
    and "\<forall>band \<in> set (thread_bands n h). int k \<notin> set (band_rows band)"
  shows "m' ! k = m ! k"
proof -
  have "fst (fold (\<lambda>band (m, g). process_matrix_rows L (fst band) (snd band) w h m spp md world cam g)
              (run_order sched (thread_bands n h)) (m, g)) ! k = fst (m, g) ! k"
  proof (rule fold_keeps [where Q = "\<lambda>mg. fst mg ! k"])
    fix band and a :: "color list list \<times> 's globals"
    assume "band \<in> set (run_order sched (thread_bands n h))"
    then have "band \<in> set (thread_bands n h)" by (simp add: set_run_order)
    with assms(2) have "int k \<notin> set [fst band .. snd band]" by (simp add: band_rows_def)
    then show "fst (case a of (m, g) \<Rightarrow> process_matrix_rows L (fst band) (snd band) w h m spp md world cam g) ! k
               = fst a ! k"
      by (cases a) (simp add: process_matrix_rows_other_row)
  qed
  with assms(1) show ?thesis
    by (auto simp: multithreaded_raytracing_def split: if_splits)
qed

section \<open>Properties of the written file\<close>

lemma fold_append_concat: "fold (\<lambda>x acc. acc @ f x) xs acc = acc @ concat (map f xs)"
  by (induction xs arbitrary: acc) simp_all

lemma dump_rows_eq:
  "dump_rows w h m out =
     out @ concat (map (\<lambda>j. concat (map (\<lambda>i. pixel_line (m ! nat j ! nat i) @ [CHR 0x0A]) [0 .. w - 1]))
                    (rev [0 .. h - 1]))"
  by (simp add: dump_rows_def fold_append_concat)

lemma unlines_append: "unlines (xs @ ys) = unlines xs @ unlines ys"
  by (simp add: unlines_def)

lemma unlines_concat: "unlines (concat xss) = concat (map unlines xss)"
  by (induction xss) (simp_all add: unlines_append, simp add: unlines_def)

lemma ppm_header_lines:
  "ppm_header w h = unlines [''P3'', string_of_int w @ '' '' @ string_of_int h, ''255'']"
  by (simp add: ppm_header_def unlines_def)

lemma dump_output_lines:
  "dump_output w h m =
     unlines ([''P3'', string_of_int w @ '' '' @ string_of_int h, ''255''] @ ppm_pixel_lines w h m)"
proof -
  have "ppm_pixel_lines w h m =
      concat (map (\<lambda>j. map (\<lambda>i. pixel_line (m ! nat j ! nat i)) [0 .. w - 1]) (rev [0 .. h - 1]))"
    by (simp add: ppm_pixel_lines_def List.product_concat_map map_concat o_def)
  then have "unlines (ppm_pixel_lines w h m) =
      concat (map (\<lambda>j. concat (map (\<lambda>i. pixel_line (m ! nat j ! nat i) @ [CHR 0x0A]) [0 .. w - 1]))
                (rev [0 .. h - 1]))"
    by (simp add: unlines_concat o_def) (simp add: unlines_def o_def)
  moreover have "unlines ([''P3'', string_of_int w @ '' '' @ string_of_int h, ''255''] @
        ppm_pixel_lines w h m) =
      unlines [''P3'', string_of_int w @ '' '' @ string_of_int h, ''255''] @
      unlines (ppm_pixel_lines w h m)"
    by (rule unlines_append)
  ultimately show ?thesis
    by (simp only: dump_output_def dump_rows_eq ppm_header_lines)
qed

lemma length_ppm_pixel_lines:
  "0 \<le> w \<Longrightarrow> 0 \<le> h \<Longrightarrow> length (ppm_pixel_lines w h m) = nat (w * h)"
  by (simp add: ppm_pixel_lines_def nat_mult_distrib mult.commute)

lemma ppm_pixel_lines_nth:
  assumes "0 \<le> w" and "0 \<le> h" and "k < nat (w * h)"
  shows "ppm_pixel_lines w h m ! k =
           pixel_line (m ! nat (h - 1 - int k div w) ! nat (int k mod w))"
proof -
  have lw: "length [0 .. w - 1] = nat w" and lh: "length (rev [0 .. h - 1]) = nat h"
    using assms by simp_all
  from assms have k: "k < length (rev [0 .. h - 1]) * length [0 .. w - 1]"
    by (simp add: nat_mult_distrib mult.commute)
  from assms have wpos: "0 < w" by (cases "w = 0") simp_all
  have kd: "k div nat w < nat h"
    using k wpos by (simp add: less_mult_imp_div_less)
  have km: "k mod nat w < nat w" using wpos by simp
  have a: "rev [0 .. h - 1] ! (k div nat w) = h - 1 - int (k div nat w)"
    using kd by (simp add: rev_nth)
  have b: "[0 .. w - 1] ! (k mod nat w) = int (k mod nat w)"
    using km by simp
  have c: "int (k div nat w) = int k div w" using wpos by (simp add: zdiv_int)
  have d: "int (k mod nat w) = int k mod w" using wpos by (simp add: zmod_int)
  have "ppm_pixel_lines w h m ! k =
      (\<lambda>(j, i). pixel_line (m ! nat j ! nat i)) (List.product (rev [0 .. h - 1]) [0 .. w - 1] ! k)"
    unfolding ppm_pixel_lines_def using k by (intro nth_map) simp
  also have "List.product (rev [0 .. h - 1]) [0 .. w - 1] ! k =
      (rev [0 .. h - 1] ! (k div nat w), [0 .. w - 1] ! (k mod nat w))"
    using product_nth [OF k] by (simp only: lw)
  finally show ?thesis by (simp add: a b c d)
qed

lemma digit_char: "k < 10 \<Longrightarrow> ''0123456789'' ! k \<in> set ''0123456789''"
  by (rule nth_mem) simp

lemma string_of_nat_digits: "set (string_of_nat n) \<subseteq> set ''0123456789''"
proof (induction n rule: string_of_nat.induct)
  case (1 n)
  show ?case
  proof (cases "n < 10")
    case True
    then show ?thesis
      using digit_char [of n] by (subst string_of_nat.simps) simp
  next
    case False
    have "n mod 10 < 10" by simp
    then have "''0123456789'' ! (n mod 10) \<in> set ''0123456789''" by (rule digit_char)
    with False "1.IH" show ?thesis
      by (subst string_of_nat.simps) simp
  qed
qed

lemma is_line_string_of_int: "is_line (string_of_int k)"
  using string_of_nat_digits [of "nat k"] string_of_nat_digits [of "nat (- k)"]
  by (auto simp: is_line_def string_of_int_def)

lemma is_line_append: "is_line (xs @ ys) \<longleftrightarrow> is_line xs \<and> is_line ys"
  by (auto simp: is_line_def)

lemma is_line_pixel_line: "is_line (pixel_line c)"
  using is_line_string_of_int [of "static_cast_int (vec3_x c)"]
    is_line_string_of_int [of "static_cast_int (vec3_y c)"]
    is_line_string_of_int [of "static_cast_int (vec3_z c)"]
  by (simp add: pixel_line_def is_line_def)

lemma is_line_ppm_pixel_lines: "l \<in> set (ppm_pixel_lines w h m) \<Longrightarrow> is_line l"
  by (auto simp: ppm_pixel_lines_def is_line_pixel_line)

lemma static_cast_int_channel:
  "0 \<le> v \<Longrightarrow> v < 256 \<Longrightarrow> 0 \<le> static_cast_int v \<and> static_cast_int v \<le> 255"
  by (simp add: static_cast_int_def floor_less_iff less_le_not_le [symmetric])

lemma string_of_int_small [simp]:
  "string_of_int 0 = ''0''" "string_of_int 2 = ''2''" "string_of_int 3 = ''3''"
  "string_of_int 12 = ''12''" "string_of_int 255 = ''255''"
  by (simp_all add: string_of_int_def string_of_nat.simps)

lemma pixel_line_black: "pixel_line (Vec3 0 0 0) = ''0 0 0''"
  by (simp add: pixel_line_def static_cast_int_def)

lemma demo_image_lines:
  "ppm_pixel_lines 2 2 demo_image = [''12 34 56'', ''255 255 255'', ''0 0 0'', ''255 127 3'']"
  by (simp add: ppm_pixel_lines_def demo_image_def upto_rec1 pixel_line_def static_cast_int_def
      string_of_int_def string_of_nat.simps)

lemma pixel_line_channels:
  assumes "color_ok c"
  shows "\<exists>r g b. pixel_line c = string_of_int r @ '' '' @ string_of_int g @ '' '' @ string_of_int b \<and>
           0 \<le> r \<and> r \<le> 255 \<and> 0 \<le> g \<and> g \<le> 255 \<and> 0 \<le> b \<and> b \<le> 255"
proof (intro exI conjI)
  show "pixel_line c = string_of_int (static_cast_int (vec3_x c)) @ '' '' @
      string_of_int (static_cast_int (vec3_y c)) @ '' '' @ string_of_int (static_cast_int (vec3_z c))"
    by (simp add: pixel_line_def)
qed (use assms static_cast_int_channel in \<open>auto simp: color_ok_def channel_ok_def\<close>)

lemma is_line_header:
  "l \<in> set [''P3'', string_of_int w @ '' '' @ string_of_int h, ''255''] \<Longrightarrow> is_line l"
  using is_line_string_of_int [of w] is_line_string_of_int [of h]
  by (auto simp: is_line_def)

lemma buffer_ok_cell:
  assumes "buffer_ok m" and "j < length m" and "i < length (m ! j)"
  shows "color_ok (m ! j ! i)"
proof -
  from assms(2) have "m ! j \<in> set m" by simp
  moreover from assms(3) have "m ! j ! i \<in> set (m ! j)" by simp
  ultimately show ?thesis using assms(1) unfolding buffer_ok_def by blast
qed

lemma pixel_index_in_range:
  assumes "0 \<le> w" and "0 \<le> h" and "k < nat (w * h)"
  shows "nat (h - 1 - int k div w) < nat h" and "nat (int k mod w) < nat w"
    and "0 \<le> int k div w" and "int k div w < h"
proof -
  from assms have wpos: "0 < w" by (cases "w = 0") simp_all
  from assms have "k < nat h * nat w" by (simp add: nat_mult_distrib mult.commute)
  then have "k div nat w < nat h" by (rule less_mult_imp_div_less)
  then have "int (k div nat w) < h" by simp
  then show lt: "int k div w < h" using wpos by (simp add: zdiv_int)
  show ge: "0 \<le> int k div w" using wpos by (simp add: pos_imp_zdiv_nonneg_iff)
  from lt ge show "nat (h - 1 - int k div w) < nat h" by simp
  show "nat (int k mod w) < nat w" using wpos by simp
qed

text \<open>
  C6. For a buffer of \<open>h\<close> rows of \<open>w\<close> encoded colours, the text written to the file is
  the three header lines \<open>P3\<close>, \<open>w h\<close> and \<open>255\<close> followed by exactly \<open>w * h\<close> pixel
  lines, each ended by one newline. Pixel line number \<open>k\<close> belongs to row
  \<open>h - 1 - k div w\<close> and column \<open>k mod w\<close>: the rows run from \<open>h - 1\<close> down to \<open>0\<close>,
  the columns from left to right. Every pixel line is three decimal integers between \<open>0\<close>
  and \<open>255\<close> separated by single spaces.
\<close>

theorem dump_output_format:
  assumes "0 \<le> w" and "0 \<le> h"
    and "length m = nat h" and "\<forall>row \<in> set m. length row = nat w" and "buffer_ok m"
  shows "dump_output w h m =
           unlines ([''P3'', string_of_int w @ '' '' @ string_of_int h, ''255''] @
                    ppm_pixel_lines w h m) \<and>
         (\<forall>l \<in> set ([''P3'', string_of_int w @ '' '' @ string_of_int h, ''255''] @
                     ppm_pixel_lines w h m). is_line l) \<and>
         length (ppm_pixel_lines w h m) = nat (w * h) \<and>
         (\<forall>k < nat (w * h).
            ppm_pixel_lines w h m ! k =
              pixel_line (m ! nat (h - 1 - int k div w) ! nat (int k mod w)) \<and>
            (\<exists>r g b. ppm_pixel_lines w h m ! k =
                       string_of_int r @ '' '' @ string_of_int g @ '' '' @ string_of_int b \<and>
                     0 \<le> r \<and> r \<le> 255 \<and> 0 \<le> g \<and> g \<le> 255 \<and> 0 \<le> b \<and> b \<le> 255))"
proof (intro conjI allI impI ballI)
  show "dump_output w h m =
      unlines ([''P3'', string_of_int w @ '' '' @ string_of_int h, ''255''] @ ppm_pixel_lines w h m)"
    by (rule dump_output_lines)
next
  fix l
  assume "l \<in> set ([''P3'', string_of_int w @ '' '' @ string_of_int h, ''255''] @
                    ppm_pixel_lines w h m)"
  then consider "l \<in> set [''P3'', string_of_int w @ '' '' @ string_of_int h, ''255'']"
    | "l \<in> set (ppm_pixel_lines w h m)" by auto
  then show "is_line l"
    by cases (rule is_line_header, assumption, rule is_line_ppm_pixel_lines, assumption)
next
  show "length (ppm_pixel_lines w h m) = nat (w * h)"
    using assms(1,2) by (rule length_ppm_pixel_lines)
next
  fix k assume k: "k < nat (w * h)"
  show "ppm_pixel_lines w h m ! k = pixel_line (m ! nat (h - 1 - int k div w) ! nat (int k mod w))"
    using assms(1,2) k by (rule ppm_pixel_lines_nth)
next
  fix k assume k: "k < nat (w * h)"
  let ?j = "nat (h - 1 - int k div w)" and ?i = "nat (int k mod w)"
  have j: "?j < length m" using pixel_index_in_range(1) [OF assms(1,2) k] assms(3) by simp
  then have "m ! ?j \<in> set m" by simp
  with assms(4) have "length (m ! ?j) = nat w" by blast
  with pixel_index_in_range(2) [OF assms(1,2) k] have i: "?i < length (m ! ?j)" by simp
  have "color_ok (m ! ?j ! ?i)" using assms(5) j i by (rule buffer_ok_cell)
  then show "\<exists>r g b. ppm_pixel_lines w h m ! k =
                       string_of_int r @ '' '' @ string_of_int g @ '' '' @ string_of_int b \<and>
                     0 \<le> r \<and> r \<le> 255 \<and> 0 \<le> g \<and> g \<le> 255 \<and> 0 \<le> b \<and> b \<le> 255"
    unfolding ppm_pixel_lines_nth [OF assms(1,2) k] by (rule pixel_line_channels)
qed

lemma demo_image_ok: "buffer_ok demo_image"
  by (simp add: buffer_ok_def demo_image_def color_ok_def channel_ok_def)

theorem dump_output_format_witness:
  "(0::int) \<le> 2 \<and> length demo_image = nat 2 \<and> map length demo_image = [nat 2, nat 2] \<and>
   buffer_ok demo_image \<and>
   dump_output 2 2 demo_image =
     unlines [''P3'', ''2 2'', ''255'', ''12 34 56'', ''255 255 255'', ''0 0 0'', ''255 127 3''] \<and>
   length (ppm_pixel_lines 2 2 demo_image) = 4"
proof -
  have dims: "length demo_image = nat 2" "\<forall>row \<in> set demo_image. length row = nat 2"
    by (simp_all add: demo_image_def)
  have lens: "map length demo_image = [nat 2, nat 2]"
    by (simp add: demo_image_def)
  from dump_output_format [of 2 2 demo_image, OF _ _ dims demo_image_ok]
  have "dump_output 2 2 demo_image =
      unlines ([''P3'', string_of_int 2 @ '' '' @ string_of_int 2, ''255''] @
               ppm_pixel_lines 2 2 demo_image)"
    and "length (ppm_pixel_lines 2 2 demo_image) = nat (2 * 2)"
    by simp_all
  with dims lens demo_image_ok show ?thesis
    by (simp add: demo_image_lines)
qed

lemma fold_inv:
  assumes "\<And>x a. x \<in> set xs \<Longrightarrow> P a \<Longrightarrow> P (f x a)" and "P a"
  shows "P (fold f xs a)"
  using assms by (induction xs arbitrary: a) simp_all

lemma matrix_store_dims: "map length (matrix_store m j i v) = map length m"
  by (simp add: list_eq_iff_nth_eq matrix_store_length matrix_store_row_length)

lemma matrix_store_ok:
  assumes "buffer_ok m" and "color_ok v"
  shows "buffer_ok (matrix_store m j i v)"
proof (cases "0 \<le> j \<and> j < int (length m) \<and> 0 \<le> i \<and> i < int (length (m ! nat j))")
  case False
  then have "matrix_store m j i v = m" unfolding matrix_store_def by (rule if_not_P)
  with assms(1) show ?thesis by simp
next
  case True
  then have "nat j < length m" by linarith
  then have "m ! nat j \<in> set m" by (rule nth_mem)
  with assms(1) have row: "\<forall>c \<in> set (m ! nat j). color_ok c" by (simp add: buffer_ok_def)
  have "\<forall>c \<in> set ((m ! nat j)[nat i := v]). color_ok c"
    using row assms(2) set_update_subset_insert [of "m ! nat j" "nat i" v] by blast
  moreover have "set (m[nat j := (m ! nat j)[nat i := v]]) \<subseteq> insert ((m ! nat j)[nat i := v]) (set m)"
    by (rule set_update_subset_insert)
  ultimately have "\<forall>row \<in> set (m[nat j := (m ! nat j)[nat i := v]]). \<forall>c \<in> set row. color_ok c"
    using assms(1) unfolding buffer_ok_def by blast
  moreover from True have "matrix_store m j i v = m[nat j := (m ! nat j)[nat i := v]]"
    unfolding matrix_store_def by (rule if_P)
  ultimately show ?thesis by (simp add: buffer_ok_def)
qed

lemma process_pixel_dims:
  "map length (fst (process_pixel L w h spp md world cam j i mg)) = map length (fst mg)"
  by (simp add: process_pixel_def Let_def matrix_store_dims split: prod.splits)

lemma process_pixel_ok:
  assumes "\<forall>c k. color_ok (lib_format_color L c k)" and "buffer_ok (fst mg)"
  shows "buffer_ok (fst (process_pixel L w h spp md world cam j i mg))"
  using assms by (auto simp: process_pixel_def Let_def split: prod.splits intro!: matrix_store_ok)

lemma process_matrix_rows_inv:
  fixes L :: "'s library"
  assumes "\<And>j i (mg :: color list list \<times> 's globals). P (fst mg) \<Longrightarrow>
             P (fst (process_pixel L w h spp md world cam j i mg))"
    and "P m"
  shows "P (fst (process_matrix_rows L start_row end_row w h m spp md world cam g))"
proof -
  have "(P \<circ> fst) (fold (\<lambda>j (m, g). fold (process_pixel L w h spp md world cam j) [0 .. w - 1]
                (m, update_progress g)) [start_row .. end_row] (m, g))"
  proof (rule fold_inv [where P = "P \<circ> fst"])
    fix j and a :: "color list list \<times> 's globals"
    assume a: "(P \<circ> fst) a"
    obtain m0 g0 where eq: "a = (m0, g0)" by (cases a)
    have "(P \<circ> fst) (fold (process_pixel L w h spp md world cam j) [0 .. w - 1] (m0, update_progress g0))"
      by (rule fold_inv [where P = "P \<circ> fst"]) (use a eq assms(1) in simp_all)
    then show "(P \<circ> fst) (case a of (m, g) \<Rightarrow>
        fold (process_pixel L w h spp md world cam j) [0 .. w - 1] (m, update_progress g))"
      by (simp add: eq)
  qed (simp add: assms(2))
  then show ?thesis by (simp add: process_matrix_rows_def)
qed

lemma multithreaded_raytracing_inv:
  fixes L :: "'s library"
  assumes "\<And>j i (mg :: color list list \<times> 's globals). P (fst mg) \<Longrightarrow>
             P (fst (process_pixel L w h spp md world cam j i mg))"
    and "P m"
    and "multithreaded_raytracing L sched n w h m spp md world cam g = Some (m', g')"
  shows "P m'"
proof -
  have "(P \<circ> fst) (fold (\<lambda>band (m, g). process_matrix_rows L (fst band) (snd band) w h m spp md world cam g)
              (run_order sched (thread_bands n h)) (m, g))"
  proof (rule fold_inv [where P = "P \<circ> fst"])
    fix band and a :: "color list list \<times> 's globals"
    assume "(P \<circ> fst) a"
    then show "(P \<circ> fst) (case a of (m, g) \<Rightarrow>
        process_matrix_rows L (fst band) (snd band) w h m spp md world cam g)"
      by (cases a) (simp add: process_matrix_rows_inv [where P = P, OF assms(1)])
  qed (simp add: assms(2))
  with assms(3) show ?thesis
    by (auto simp: multithreaded_raytracing_def split: if_splits)
qed

lemma rendered_dims:
  fixes L :: "'s library"
  assumes "multithreaded_raytracing L sched n w h m spp md world cam g = Some (m', g')"
  shows "map length m' = map length m"
  by (rule multithreaded_raytracing_inv [where P = "\<lambda>x. map length x = map length m", OF _ _ assms])
     (simp_all add: process_pixel_dims)

lemma rendered_ok:
  fixes L :: "'s library"
  assumes "\<forall>c k. color_ok (lib_format_color L c k)" and "buffer_ok m"
    and "multithreaded_raytracing L sched n w h m spp md world cam g = Some (m', g')"
  shows "buffer_ok m'"
  by (rule multithreaded_raytracing_inv [where P = buffer_ok, OF _ assms(2,3)])
     (simp add: process_pixel_ok assms(1))

lemma rendered_image_dims:
  fixes L :: "'s library"
  assumes "multithreaded_raytracing L sched n w h (image_matrix w h) spp md world cam g = Some (m', g')"
  shows "length m' = nat h" and "\<forall>row \<in> set m'. length row = nat w"
proof -
  from rendered_dims [OF assms]
  have eq: "map length m' = replicate (nat h) (nat w)"
    by (simp add: image_matrix_eq)
  from arg_cong [OF eq, of length] show "length m' = nat h" by simp
  from arg_cong [OF eq, of set] have "length ` set m' \<subseteq> {nat w}" by (auto split: if_splits)
  then show "\<forall>row \<in> set m'. length row = nat w" by blast
qed

lemma image_matrix_ok: "buffer_ok (image_matrix w h)"
  by (simp add: image_matrix_eq buffer_ok_def color_ok_def channel_ok_def)

text \<open>
  C10. \<open>image_matrix w h\<close> is a buffer of \<open>h\<close> rows of \<open>w\<close> cells that all hold the
  colour \<open>(0, 0, 0)\<close>. After the scheduler has run with \<open>n\<close> workers, the rows from
  \<open>n * (h div n)\<close> to \<open>h - 1\<close>, which no worker was given, still hold only that colour.
  The file has all \<open>w * h\<close> pixel lines, and its first \<open>w * (h mod n)\<close> pixel lines, those
  of the rows without a worker, read \<open>0 0 0\<close>.
\<close>

theorem remainder_rows_black:
  fixes L :: "'s library"
  assumes "0 < n" and "0 \<le> h" and "0 \<le> w"
    and "multithreaded_raytracing L sched n w h (image_matrix w h) spp md world cam g = Some (m', g')"
  shows "image_matrix w h = replicate (nat h) (replicate (nat w) (Vec3 0 0 0)) \<and>
         length m' = nat h \<and>
         (\<forall>j \<in> {n * (h div n) .. h - 1}. m' ! nat j = replicate (nat w) (Vec3 0 0 0)) \<and>
         dump_output w h m' =
           unlines ([''P3'', string_of_int w @ '' '' @ string_of_int h, ''255''] @
                    ppm_pixel_lines w h m') \<and>
         length (ppm_pixel_lines w h m') = nat (w * h) \<and>
         (\<forall>k < nat (w * (h mod n)). ppm_pixel_lines w h m' ! k = ''0 0 0'')"
proof -
  have rows: "\<forall>j \<in> {n * (h div n) .. h - 1}. m' ! nat j = replicate (nat w) (Vec3 0 0 0)"
  proof
    fix j assume j: "j \<in> {n * (h div n) .. h - 1}"
    have seg: "0 \<le> n * (h div n)" using assms(1,2) by (simp add: pos_imp_zdiv_nonneg_iff)
    with j have j0: "0 \<le> j" by simp
    have "\<forall>band \<in> set (thread_bands n h). int (nat j) \<notin> set (band_rows band)"
    proof (intro ballI notI)
      fix band assume "band \<in> set (thread_bands n h)" "int (nat j) \<in> set (band_rows band)"
      then have "j \<in> set (concat (map band_rows (thread_bands n h)))" using j0 by auto
      then have "j \<le> n * (h div n) - 1" by (simp add: concat_thread_bands [OF assms(1,2)])
      with j show False by simp
    qed
    with assms(4) have "m' ! nat j = image_matrix w h ! nat j"
      by (rule multithreaded_raytracing_other_row)
    also have "\<dots> = replicate (nat w) (Vec3 0 0 0)"
      using j j0 by (simp add: image_matrix_eq)
    finally show "m' ! nat j = replicate (nat w) (Vec3 0 0 0)" .
  qed
  have top: "\<forall>k < nat (w * (h mod n)). ppm_pixel_lines w h m' ! k = ''0 0 0''"
  proof (intro allI impI)
    fix k assume k: "k < nat (w * (h mod n))"
    have m0: "0 \<le> h mod n" and mh: "h mod n \<le> h"
      using assms(1,2) by (simp_all add: zmod_le_nonneg_dividend)
    from assms(3) mh have "w * (h mod n) \<le> w * h" by (rule mult_left_mono [rotated])
    with k have kk: "k < nat (w * h)" by simp
    from k have wpos: "0 < w" using assms(3) by (cases "w = 0") simp_all
    from k m0 assms(3) have "k < nat (h mod n) * nat w" by (simp add: nat_mult_distrib mult.commute)
    then have "k div nat w < nat (h mod n)" by (rule less_mult_imp_div_less)
    then have "int (k div nat w) < h mod n" by simp
    then have dv: "int k div w < h mod n" using wpos by (simp add: zdiv_int)
    have "n * (h div n) = h - h mod n" by (simp add: minus_mod_eq_mult_div)
    with dv pixel_index_in_range(3) [OF assms(3,2) kk]
    have "h - 1 - int k div w \<in> {n * (h div n) .. h - 1}" by simp
    with rows have row: "m' ! nat (h - 1 - int k div w) = replicate (nat w) (Vec3 0 0 0)" by blast
    have "nat (int k mod w) < nat w" by (rule pixel_index_in_range(2) [OF assms(3,2) kk])
    then have "m' ! nat (h - 1 - int k div w) ! nat (int k mod w) = Vec3 0 0 0"
      by (simp add: row)
    then show "ppm_pixel_lines w h m' ! k = ''0 0 0''"
      by (simp add: ppm_pixel_lines_nth [OF assms(3,2) kk] pixel_line_black)
  qed
  from rows top show ?thesis
    by (simp add: image_matrix_eq [symmetric] rendered_image_dims(1) [OF assms(4)]
        dump_output_lines length_ppm_pixel_lines [OF assms(3,2)])
qed

lemma demo_down_color_any:
  "ray_color demo_floor demo_scatter demo_down 2 s = (Vec3 0.25 0.35 0.5, Suc s)"
  by (subst ray_color.simps) (simp add: demo_down_hit demo_down_scatter demo_up_color vec3_mul_def)

lemma rng_update_progress: "rng (update_progress g) = rng g"
  by (simp add: update_progress_def Let_def)

lemma thread_bands_2_3: "thread_bands 2 3 = [(0, 0), (1, 1)]"
  by (simp add: thread_bands_def thread_bands_loop.simps signed_divide_int_def)

lemma demo_pixel:
  "process_pixel demo_library 2 3 1 2 demo_floor demo_camera j i (m, g) =
     (if (real_of_int j + real (Suc (rng g) mod 2) / 2) / 2 < 1 / 2
      then (matrix_store m j i (Vec3 63.75 89.25 127.5), g\<lparr>rng := Suc (Suc (Suc (rng g)))\<rparr>)
      else (matrix_store m j i (Vec3 127.5 178.5 255), g\<lparr>rng := Suc (Suc (rng g))\<rparr>))"
  by (simp add: process_pixel_def take_sample_def random_double_def demo_library_def demo_rand_def
      demo_get_ray_def demo_down_color_any demo_up_color demo_format_color_def vec3_scale_def
      vec3_add_def Let_def split: prod.splits)

lemma demo_render:
  "map_option fst (multithreaded_raytracing demo_library [] 2 2 3 (image_matrix 2 3) 1 2 demo_floor
     demo_camera demo_globals) =
   Some [[Vec3 63.75 89.25 127.5, Vec3 63.75 89.25 127.5],
         [Vec3 127.5 178.5 255, Vec3 127.5 178.5 255],
         [Vec3 0 0 0, Vec3 0 0 0]]"
  by (simp add: multithreaded_raytracing_def thread_bands_2_3 process_matrix_rows_def demo_pixel
      rng_update_progress image_matrix_eq matrix_store_def demo_globals_def upto_rec1
      numeral_2_eq_2 numeral_3_eq_3)

theorem remainder_rows_black_witness:
  "(0::int) < 2 \<and> (0::int) \<le> 3 \<and>
   (\<exists>g'. multithreaded_raytracing demo_library [] 2 2 3 (image_matrix 2 3) 1 2 demo_floor
           demo_camera demo_globals = Some (demo_rendered, g')) \<and>
   demo_rendered ! 2 = [Vec3 0 0 0, Vec3 0 0 0] \<and>
   ppm_pixel_lines 2 3 demo_rendered ! 0 = ''0 0 0'' \<and>
   ppm_pixel_lines 2 3 demo_rendered ! 1 = ''0 0 0'' \<and>
   length (ppm_pixel_lines 2 3 demo_rendered) = 6"
proof -
  from demo_render obtain g' where
    r: "multithreaded_raytracing demo_library [] 2 2 3 (image_matrix 2 3) 1 2 demo_floor
          demo_camera demo_globals = Some (demo_rendered, g')"
    by (auto simp: demo_rendered_def)
  have n: "(0::int) < 2" and h: "(0::int) \<le> 3" and w: "(0::int) \<le> 2" by simp_all
  from remainder_rows_black [OF n h w r]
  have rows: "\<forall>j \<in> {2 * (3 div 2) .. 3 - 1}. demo_rendered ! nat j = replicate (nat 2) (Vec3 0 0 0)"
    and top: "\<forall>k < nat (2 * (3 mod 2)). ppm_pixel_lines 2 3 demo_rendered ! k = ''0 0 0''"
    and len: "length (ppm_pixel_lines 2 3 demo_rendered) = nat (2 * 3)"
    by blast+
  from rows have "demo_rendered ! nat 2 = replicate (nat 2) (Vec3 0 0 0)" by simp
  then have r2: "demo_rendered ! 2 = [Vec3 0 0 0, Vec3 0 0 0]" by (simp add: numeral_2_eq_2)
  from top have t0: "ppm_pixel_lines 2 3 demo_rendered ! 0 = ''0 0 0''"
    and t1: "ppm_pixel_lines 2 3 demo_rendered ! 1 = ''0 0 0''" by simp_all
  from r r2 t0 t1 len show ?thesis by simp
qed

section \<open>The scheduler and its workers\<close>

lemma process_matrix_rows_rows:
  "process_matrix_rows L a b w h m spp md world cam g =
     fold (process_row L w h spp md world cam) (band_rows (a, b)) (m, g)"
proof -
  have "(\<lambda>j (m, g). fold (process_pixel L w h spp md world cam j) [0 .. w - 1] (m, update_progress g)) =
        process_row L w h spp md world cam"
    by (simp add: fun_eq_iff process_row_def)
  then show ?thesis by (simp add: process_matrix_rows_def band_rows_def)
qed

lemma run_bands_rows:
  "fold (\<lambda>band (m, g). process_matrix_rows L (fst band) (snd band) w h m spp md world cam g) bands mg =
     fold (process_row L w h spp md world cam) (concat (map band_rows bands)) mg"
proof -
  have step: "(\<lambda>band (m, g). process_matrix_rows L (fst band) (snd band) w h m spp md world cam g) =
      (\<lambda>band. fold (process_row L w h spp md world cam) (band_rows band))"
    by (simp add: fun_eq_iff process_matrix_rows_rows)
  have "fold (\<lambda>band. fold (process_row L w h spp md world cam) (band_rows band)) bands mg =
      fold (process_row L w h spp md world cam) (concat (map band_rows bands)) mg"
    by (induction bands arbitrary: mg) simp_all
  then show ?thesis by (simp only: step)
qed

lemma process_pixel_progress:
  "current_progress (snd (process_pixel L w h spp md world cam j i mg)) = current_progress (snd mg)"
  by (simp add: process_pixel_def Let_def split: prod.splits)

lemma process_row_progress:
  "current_progress (snd (process_row L w h spp md world cam j mg)) = current_progress (snd mg) + 1"
proof -
  obtain m g where mg: "mg = (m, g)" by (cases mg)
  have "current_progress (snd (fold (process_pixel L w h spp md world cam j) [0 .. w - 1]
          (m, update_progress g))) = current_progress (snd (m, update_progress g))"
    by (rule fold_keeps [where Q = "\<lambda>a. current_progress (snd a)"]) (rule process_pixel_progress)
  then show ?thesis by (simp add: process_row_def mg update_progress_def Let_def)
qed

lemma process_rows_progress:
  "current_progress (snd (fold (process_row L w h spp md world cam) rows mg)) =
     current_progress (snd mg) + int (length rows)"
  by (induction rows arbitrary: mg) (simp_all add: process_row_progress)

lemma matrix_store_cell:
  "matrix_store m j i v ! k ! l =
     (if 0 \<le> j \<and> j < int (length m) \<and> 0 \<le> i \<and> i < int (length (m ! nat j)) \<and>
         k = nat j \<and> l = nat i
      then v else m ! k ! l)"
proof (cases "0 \<le> j \<and> j < int (length m) \<and> 0 \<le> i \<and> i < int (length (m ! nat j))")
  case False
  then have "matrix_store m j i v = m" unfolding matrix_store_def by (rule if_not_P)
  with False show ?thesis by auto
next
  case True
  then have st: "matrix_store m j i v = m[nat j := (m ! nat j)[nat i := v]]"
    unfolding matrix_store_def by (rule if_P)
  from True have j: "nat j < length m" and i: "nat i < length (m ! nat j)" by linarith+
  show ?thesis
  proof (cases "k = nat j")
    case False
    then show ?thesis by (simp add: st)
  next
    case k: True
    with j i True show ?thesis by (simp add: st nth_list_update)
  qed
qed

lemma fold_establish:
  assumes "x \<in> set xs" and "I a"
    and "\<And>y a. I a \<Longrightarrow> I (f y a)"
    and "\<And>a. I a \<Longrightarrow> P (f x a)"
    and "\<And>y a. P a \<Longrightarrow> P (f y a)"
  shows "P (fold f xs a)"
  using assms(1,2)
proof (induction xs arbitrary: a)
  case Nil
  then show ?case by simp
next
  case (Cons y ys)
  show ?case
  proof (cases "y = x")
    case True
    from Cons.prems(2) have "P (f x a)" by (rule assms(4))
    then have "P (fold f ys (f x a))"
      by (intro fold_inv [where P = P]) (rule assms(5))
    with True show ?thesis by simp
  next
    case False
    with Cons.prems(1) have "x \<in> set ys" by simp
    moreover from Cons.prems(2) have "I (f y a)" by (rule assms(3))
    ultimately have "P (fold f ys (f y a))" by (rule Cons.IH)
    then show ?thesis by simp
  qed
qed

lemma process_pixel_written_keep:
  assumes "\<exists>c. fst mg ! k ! l = lib_format_color L c spp"
  shows "\<exists>c. fst (process_pixel L w h spp md world cam j i mg) ! k ! l = lib_format_color L c spp"
proof -
  obtain m g where mg: "mg = (m, g)" by (cases mg)
  obtain pc s' where f: "fold (\<lambda>s. take_sample L w h md world cam j i) [0 .. spp - 1]
      (Vec3 0 0 0, rng g) = (pc, s')"
    by (cases "fold (\<lambda>s. take_sample L w h md world cam j i) [0 .. spp - 1] (Vec3 0 0 0, rng g)")
  have "fst (process_pixel L w h spp md world cam j i mg) =
      matrix_store m j i (lib_format_color L pc spp)"
    by (simp add: process_pixel_def mg f)
  with assms show ?thesis
    by (auto simp: matrix_store_cell mg)
qed

lemma process_pixel_writes:
  assumes "0 \<le> j" and "j < int (length (fst mg))" and "0 \<le> i"
    and "i < int (length (fst mg ! nat j))"
  shows "\<exists>c. fst (process_pixel L w h spp md world cam j i mg) ! nat j ! nat i =
           lib_format_color L c spp"
proof -
  obtain m g where mg: "mg = (m, g)" by (cases mg)
  obtain pc s' where f: "fold (\<lambda>s. take_sample L w h md world cam j i) [0 .. spp - 1]
      (Vec3 0 0 0, rng g) = (pc, s')"
    by (cases "fold (\<lambda>s. take_sample L w h md world cam j i) [0 .. spp - 1] (Vec3 0 0 0, rng g)")
  have "fst (process_pixel L w h spp md world cam j i mg) =
      matrix_store m j i (lib_format_color L pc spp)"
    by (simp add: process_pixel_def mg f)
  with assms show ?thesis
    by (auto simp: matrix_store_cell mg)
qed

lemma process_row_dims:
  "map length (fst (process_row L w h spp md world cam j mg)) = map length (fst mg)"
proof -
  obtain m g where mg: "mg = (m, g)" by (cases mg)
  have "map length (fst (fold (process_pixel L w h spp md world cam j) [0 .. w - 1]
          (m, update_progress g))) = map length (fst (m, update_progress g))"
    by (rule fold_keeps [where Q = "\<lambda>a. map length (fst a)"]) (rule process_pixel_dims)
  then show ?thesis by (simp add: process_row_def mg)
qed

lemma process_row_written_keep:
  assumes "\<exists>c. fst mg ! k ! l = lib_format_color L c spp"
  shows "\<exists>c. fst (process_row L w h spp md world cam j mg) ! k ! l = lib_format_color L c spp"
proof -
  obtain m g where mg: "mg = (m, g)" by (cases mg)
  have "\<exists>c. fst (fold (process_pixel L w h spp md world cam j) [0 .. w - 1]
          (m, update_progress g)) ! k ! l = lib_format_color L c spp"
    by (rule fold_inv [where P = "\<lambda>a. \<exists>c. fst a ! k ! l = lib_format_color L c spp"])
       (use assms mg in \<open>simp_all add: process_pixel_written_keep\<close>)
  then show ?thesis by (simp add: process_row_def mg)
qed

lemma dims_nth:
  assumes "map length a = map length b" and "k < length b"
  shows "length a = length b" and "length (a ! k) = length (b ! k)"
proof -
  from assms(1) show l: "length a = length b" by (rule map_eq_imp_length_eq)
  from assms(1) have "map length a ! k = map length b ! k" by simp
  with assms(2) l show "length (a ! k) = length (b ! k)" by simp
qed

lemma process_row_writes:
  fixes L :: "'s library"
  assumes "0 \<le> j" and "j < int (length (fst mg))"
    and "0 \<le> i" and "i \<le> w - 1" and "i < int (length (fst mg ! nat j))"
  shows "\<exists>c. fst (process_row L w h spp md world cam j mg) ! nat j ! nat i =
           lib_format_color L c spp"
proof -
  obtain m g where mg: "mg = (m, g)" by (cases mg)
  from assms(1,2) have jn: "nat j < length m" by (simp add: mg)
  have "\<exists>c. fst (fold (process_pixel L w h spp md world cam j) [0 .. w - 1]
          (m, update_progress g)) ! nat j ! nat i = lib_format_color L c spp"
  proof (rule fold_establish [where x = i and I = "\<lambda>a. map length (fst a) = map length m"
        and P = "\<lambda>a. \<exists>c. fst a ! nat j ! nat i = lib_format_color L c spp"])
    show "i \<in> set [0 .. w - 1]" using assms(3,4) by simp
    show "map length (fst (m, update_progress g)) = map length m" by simp
  next
    fix y and a :: "color list list \<times> 's globals"
    assume "map length (fst a) = map length m"
    then show "map length (fst (process_pixel L w h spp md world cam j y a)) = map length m"
      by (simp add: process_pixel_dims)
  next
    fix a :: "color list list \<times> 's globals"
    assume I: "map length (fst a) = map length m"
    from dims_nth [OF I jn] assms have "j < int (length (fst a))"
      and "i < int (length (fst a ! nat j))" by (simp_all add: mg)
    with assms(1,3) show "\<exists>c. fst (process_pixel L w h spp md world cam j i a) ! nat j ! nat i =
        lib_format_color L c spp"
      by (intro process_pixel_writes)
  next
    fix y and a :: "color list list \<times> 's globals"
    assume "\<exists>c. fst a ! nat j ! nat i = lib_format_color L c spp"
    then show "\<exists>c. fst (process_pixel L w h spp md world cam j y a) ! nat j ! nat i =
        lib_format_color L c spp"
      by (rule process_pixel_written_keep)
  qed
  then show ?thesis by (simp add: process_row_def mg)
qed

lemma rows_written:
  fixes L :: "'s library"
  assumes "length m = nat h" and "\<forall>row \<in> set m. length row = nat w"
    and "j \<in> set rows" and "0 \<le> j" and "j < h" and "0 \<le> i" and "i < w"
  shows "\<exists>c. fst (fold (process_row L w h spp md world cam) rows (m, g)) ! nat j ! nat i =
           lib_format_color L c spp"
proof (rule fold_establish [where x = j and I = "\<lambda>a. map length (fst a) = map length m"
      and P = "\<lambda>a. \<exists>c. fst a ! nat j ! nat i = lib_format_color L c spp"])
  show "j \<in> set rows" by (rule assms(3))
  show "map length (fst (m, g)) = map length m" by simp
next
  fix y and a :: "color list list \<times> 's globals"
  assume "map length (fst a) = map length m"
  then show "map length (fst (process_row L w h spp md world cam y a)) = map length m"
    by (simp add: process_row_dims)
next
  fix a :: "color list list \<times> 's globals"
  assume I: "map length (fst a) = map length m"
  from assms(1,4,5) have jn: "nat j < length m" by simp
  then have "m ! nat j \<in> set m" by (rule nth_mem)
  with assms(2) have "length (m ! nat j) = nat w" by blast
  with dims_nth [OF I jn] assms(1,4,5,6,7)
  have "j < int (length (fst a))" and "i < int (length (fst a ! nat j))" by simp_all
  with assms(4,6,7) show "\<exists>c. fst (process_row L w h spp md world cam j a) ! nat j ! nat i =
      lib_format_color L c spp"
    by (intro process_row_writes) simp_all
next
  fix y and a :: "color list list \<times> 's globals"
  assume "\<exists>c. fst a ! nat j ! nat i = lib_format_color L c spp"
  then show "\<exists>c. fst (process_row L w h spp md world cam y a) ! nat j ! nat i =
      lib_format_color L c spp"
    by (rule process_row_written_keep)
qed

lemma mset_concat_map_cong:
  assumes "mset xs = mset ys"
  shows "mset (concat (map f xs)) = mset (concat (map f ys))"
proof -
  have "\<And>zs. mset (concat (map f zs)) = sum_mset (image_mset (mset \<circ> f) (mset zs))"
    by (induct_tac zs) simp_all
  with assms show ?thesis by simp
qed

text \<open>
  C5. For a worker count \<open>n > 0\<close> and an image height \<open>h \<ge> 0\<close>,
  \<open>multithreaded_raytracing\<close> starts \<open>n\<close> workers; worker \<open>k\<close> gets the rows from
  \<open>k * (h div n)\<close> to \<open>k * (h div n) + h div n - 1\<close>, that is \<open>h div n\<close> rows. The bands
  follow one another without a gap, no two of them share a row, and together they are the
  rows \<open>0\<close> to \<open>n * (h div n) - 1\<close>. When \<open>n\<close> divides \<open>h\<close> every row of the image is in the
  band of exactly one worker; when it does not, the last \<open>h mod n\<close> rows are in no band.
  The run of the scheduler is the run of one \<open>process_matrix_rows\<close> per band, in whatever
  order the workers get to run; a worker processes the rows of its band, each once; so the
  scheduler processes each of the rows \<open>0\<close> to \<open>n * (h div n) - 1\<close> exactly once. Afterwards
  the progress counter has grown by \<open>n * (h div n)\<close>, and in a buffer of \<open>h\<close> rows of \<open>w\<close>
  cells every cell of these rows holds a value of \<open>format_color\<close>.
\<close>

theorem multithreaded_raytracing_partition:
  fixes L :: "'s library"
  assumes "0 < n" and "0 \<le> h"
  shows "length (thread_bands n h) = nat n \<and>
         (\<forall>k < nat n.
            thread_bands n h ! k = (int k * (h div n), int k * (h div n) + h div n - 1) \<and>
            band_rows (thread_bands n h ! k) = [int k * (h div n) .. int k * (h div n) + h div n - 1] \<and>
            int (length (band_rows (thread_bands n h ! k))) = h div n) \<and>
         concat (map band_rows (thread_bands n h)) = [0 .. n * (h div n) - 1] \<and>
         (\<forall>k l. k < l \<and> l < nat n \<longrightarrow>
            set (band_rows (thread_bands n h ! k)) \<inter> set (band_rows (thread_bands n h ! l)) = {}) \<and>
         (\<Union>band \<in> set (thread_bands n h). set (band_rows band)) = {0 .. n * (h div n) - 1} \<and>
         (n dvd h \<longrightarrow>
            (\<forall>j \<in> {0 .. h - 1}. \<exists>!k. k < nat n \<and> j \<in> set (band_rows (thread_bands n h ! k)))) \<and>
         (\<not> n dvd h \<longrightarrow>
            (\<forall>j \<in> {h - h mod n .. h - 1}. \<forall>band \<in> set (thread_bands n h). j \<notin> set (band_rows band)) \<and>
            int (card {h - h mod n .. h - 1}) = h mod n \<and> 0 < h mod n) \<and>
         multithreaded_raytracing L sched n w h m spp md world cam g =
           Some (fold (\<lambda>band (m, g).
                         process_matrix_rows L (fst band) (snd band) w h m spp md world cam g)
                   (run_order sched (thread_bands n h)) (m, g)) \<and>
         mset (run_order sched (thread_bands n h)) = mset (thread_bands n h) \<and>
         (\<forall>a b m g. process_matrix_rows L a b w h m spp md world cam g =
            fold (process_row L w h spp md world cam) (band_rows (a, b)) (m, g)) \<and>
         multithreaded_raytracing L sched n w h m spp md world cam g =
           Some (fold (process_row L w h spp md world cam)
                   (concat (map band_rows (run_order sched (thread_bands n h)))) (m, g)) \<and>
         mset (concat (map band_rows (run_order sched (thread_bands n h)))) =
           mset [0 .. n * (h div n) - 1] \<and>
         (\<forall>m' g'. multithreaded_raytracing L sched n w h m spp md world cam g = Some (m', g') \<longrightarrow>
            current_progress g' = current_progress g + n * (h div n) \<and>
            (length m = nat h \<and> (\<forall>row \<in> set m. length row = nat w) \<longrightarrow>
               (\<forall>j \<in> {0 .. n * (h div n) - 1}. \<forall>i \<in> {0 .. w - 1}.
                  \<exists>c. m' ! nat j ! nat i = lib_format_color L c spp)))"
proof -
  let ?run = "run_order sched (thread_bands n h)"
  let ?rows = "concat (map band_rows ?run)"
  have seg: "0 \<le> h div n" using assms by (simp add: pos_imp_zdiv_nonneg_iff)
  have le: "n * (h div n) \<le> h"
  proof -
    have "n * (h div n) = h - h mod n" by (simp add: minus_mod_eq_mult_div)
    moreover have "0 \<le> h mod n" using assms(1) by simp
    ultimately show ?thesis by simp
  qed
  note bands = thread_bands_partition [OF assms]
  have n0: "n \<noteq> 0" using assms(1) by simp
  have run: "multithreaded_raytracing L sched n w h m spp md world cam g =
      Some (fold (\<lambda>band (m, g).
                    process_matrix_rows L (fst band) (snd band) w h m spp md world cam g) ?run (m, g))"
    using n0 by (simp add: multithreaded_raytracing_def)
  have perm: "mset ?run = mset (thread_bands n h)" by (rule mset_run_order)
  have worker: "\<forall>a b m g. process_matrix_rows L a b w h m spp md world cam g =
      fold (process_row L w h spp md world cam) (band_rows (a, b)) (m, g)"
    by (simp add: process_matrix_rows_rows)
  have rows: "multithreaded_raytracing L sched n w h m spp md world cam g =
      Some (fold (process_row L w h spp md world cam) ?rows (m, g))"
    unfolding run by (simp only: run_bands_rows)
  have "mset ?rows = mset (concat (map band_rows (thread_bands n h)))"
    using perm by (rule mset_concat_map_cong)
  then have mrows: "mset ?rows = mset [0 .. n * (h div n) - 1]"
    by (simp only: concat_thread_bands [OF assms])
  from mrows have "length ?rows = length [0 .. n * (h div n) - 1]" by (rule mset_eq_length)
  then have lrows: "int (length ?rows) = n * (h div n)"
    using assms(1) seg by simp
  from mrows have "set ?rows = set [0 .. n * (h div n) - 1]" by (rule mset_eq_setD)
  then have srows: "set ?rows = {0 .. n * (h div n) - 1}" by (simp only: set_upto)
  have after: "\<forall>m' g'. multithreaded_raytracing L sched n w h m spp md world cam g = Some (m', g') \<longrightarrow>
      current_progress g' = current_progress g + n * (h div n) \<and>
      (length m = nat h \<and> (\<forall>row \<in> set m. length row = nat w) \<longrightarrow>
         (\<forall>j \<in> {0 .. n * (h div n) - 1}. \<forall>i \<in> {0 .. w - 1}.
            \<exists>c. m' ! nat j ! nat i = lib_format_color L c spp))"
  proof (intro allI impI conjI ballI)
    fix m' g'
    assume r: "multithreaded_raytracing L sched n w h m spp md world cam g = Some (m', g')"
    with rows have eq: "fold (process_row L w h spp md world cam) ?rows (m, g) = (m', g')" by simp
    from process_rows_progress [of L w h spp md world cam ?rows "(m, g)"]
    show "current_progress g' = current_progress g + n * (h div n)"
      by (simp add: eq lrows)
  next
    fix m' g' j i
    assume r: "multithreaded_raytracing L sched n w h m spp md world cam g = Some (m', g')"
      and dims: "length m = nat h \<and> (\<forall>row \<in> set m. length row = nat w)"
      and j: "j \<in> {0 .. n * (h div n) - 1}" and i: "i \<in> {0 .. w - 1}"
    from r rows have eq: "fold (process_row L w h spp md world cam) ?rows (m, g) = (m', g')" by simp
    from j srows have jr: "j \<in> set ?rows" by simp
    from j le have j0: "0 \<le> j" and jh: "j < h" by simp_all
    from i have i0: "0 \<le> i" and iw: "i < w" by simp_all
    from dims have d1: "length m = nat h" and d2: "\<forall>row \<in> set m. length row = nat w" by blast+
    from rows_written [OF d1 d2 jr j0 jh i0 iw, of L spp md world cam g]
    show "\<exists>c. m' ! nat j ! nat i = lib_format_color L c spp" by (simp add: eq)
  qed
  from bands run perm worker rows mrows after show ?thesis
    by (elim conjE) (intro conjI; assumption)
qed

theorem multithreaded_raytracing_partition_witness:
  "(0::int) < 2 \<and> (0::int) \<le> 3 \<and>
   thread_bands 2 3 = [(0, 0), (1, 1)] \<and>
   run_order [1] (thread_bands 2 3) = [(1, 1), (0, 0)] \<and>
   mset (concat (map band_rows (run_order [1] (thread_bands 2 3)))) = mset [0, 1] \<and>
   map_option (\<lambda>r. current_progress (snd r))
     (multithreaded_raytracing demo_library [1] 2 2 3 (image_matrix 2 3) 1 2 demo_floor
        demo_camera demo_globals) = Some 2"
proof -
  let ?r = "multithreaded_raytracing demo_library [1] 2 2 3 (image_matrix 2 3) 1 2 demo_floor
        demo_camera demo_globals"
  note t = multithreaded_raytracing_partition [where n = 2 and h = 3 and L = demo_library
      and sched = "[1]" and w = 2 and m = "image_matrix 2 3" and spp = 1 and md = 2
      and world = demo_floor and cam = demo_camera and g = demo_globals]
  have n: "(0::int) < 2" and h: "(0::int) \<le> 3" by simp_all
  from t [OF n h] have
    rows: "mset (concat (map band_rows (run_order [1] (thread_bands 2 3)))) =
        mset [0 .. 2 * (3 div 2) - 1]"
    and after: "\<forall>m' g'. ?r = Some (m', g') \<longrightarrow>
        current_progress g' = current_progress demo_globals + 2 * (3 div 2) \<and>
        (length (image_matrix 2 3) = nat 3 \<and> (\<forall>row \<in> set (image_matrix 2 3). length row = nat 2) \<longrightarrow>
          (\<forall>j \<in> {0 .. 2 * (3 div 2) - 1}. \<forall>i \<in> {0 .. 2 - 1}.
              \<exists>c. m' ! nat j ! nat i = lib_format_color demo_library c 1))"
    by blast+
  have "?r \<noteq> None" by (simp add: multithreaded_raytracing_def)
  then obtain m' g' where r: "?r = Some (m', g')" by (cases ?r) auto
  with after have "current_progress g' = current_progress demo_globals + 2 * (3 div 2)" by blast
  then have p: "current_progress g' = 2" by (simp add: demo_globals_def)
  have up: "[0 .. 2 * (3 div 2) - 1] = [0, 1 :: int]" by (simp add: upto_rec1)
  have ord: "run_order [1] (thread_bands 2 3) = [(1, 1), (0, 0)]"
    by (simp add: thread_bands_2_3)
  from rows up ord p r thread_bands_2_3 show ?thesis by simp
qed

section \<open>Properties of the program\<close>

lemma multithreaded_raytracing_rows:
  assumes "n \<noteq> 0"
  shows "multithreaded_raytracing L sched n w h m spp md world cam g =
           Some (fold (process_row L w h spp md world cam)
                   (concat (map band_rows (run_order sched (thread_bands n h)))) (m, g))"
  using assms by (simp add: multithreaded_raytracing_def run_bands_rows)

lemma scheduled_rows:
  assumes "0 < n" and "0 \<le> h"
  shows "set (concat (map band_rows (run_order sched (thread_bands n h)))) = {0 .. n * (h div n) - 1}"
proof -
  have "mset (concat (map band_rows (run_order sched (thread_bands n h)))) =
      mset (concat (map band_rows (thread_bands n h)))"
    using mset_run_order by (rule mset_concat_map_cong)
  then have "set (concat (map band_rows (run_order sched (thread_bands n h)))) =
      set (concat (map band_rows (thread_bands n h)))"
    by (rule mset_eq_setD)
  then show ?thesis by (simp only: concat_thread_bands [OF assms] set_upto)
qed

lemma multithreaded_raytracing_written:
  fixes L :: "'s library"
  assumes "0 < n" and "0 \<le> h"
    and "multithreaded_raytracing L sched n w h m spp md world cam g = Some (m', g')"
    and "length m = nat h" and "\<forall>row \<in> set m. length row = nat w"
    and "0 \<le> j" and "j < n * (h div n)" and "0 \<le> i" and "i < w"
  shows "\<exists>c. m' ! nat j ! nat i = lib_format_color L c spp"
proof -
  let ?rows = "concat (map band_rows (run_order sched (thread_bands n h)))"
  from assms(1) have "n \<noteq> 0" by simp
  from multithreaded_raytracing_rows [OF this, of L sched w h m spp md world cam g] assms(3)
  have eq: "fold (process_row L w h spp md world cam) ?rows (m, g) = (m', g')" by simp
  have "n * (h div n) = h - h mod n" by (simp add: minus_mod_eq_mult_div)
  moreover have "0 \<le> h mod n" using assms(1) by simp
  ultimately have "n * (h div n) \<le> h" by simp
  with assms(7) have jh: "j < h" by simp
  from assms(6,7) have "j \<in> {0 .. n * (h div n) - 1}" by simp
  then have "j \<in> set ?rows" by (simp only: scheduled_rows [OF assms(1,2)])
  from rows_written [OF assms(4,5) this assms(6) jh assms(8,9), of L spp md world cam g]
  show ?thesis by (simp add: eq)
qed

lemma main_with_cases:
  fixes L :: "'s library"
  assumes "THREAD_COUNT cfg \<noteq> 0"
  shows "\<exists>world s1 rendered g'.
           random_scene (lib_rand L) (lib_RAND_MAX L) s = (world, s1) \<and>
           multithreaded_raytracing L (env_sched env) (THREAD_COUNT cfg) (IMAGE_WIDTH cfg)
             (static_cast_int (real_of_int (IMAGE_WIDTH cfg) / ASPECT_RATIO cfg))
             (image_matrix (IMAGE_WIDTH cfg)
                (static_cast_int (real_of_int (IMAGE_WIDTH cfg) / ASPECT_RATIO cfg)))
             (SAMPLES_PER_PIXEL cfg) (MAX_DEPTH cfg) (hittable_list_hit (lib_sphere_hit L) world)
             (camera (Vec3 13 2 3) (Vec3 0 0 0) (Vec3 0 1 0) 20 (ASPECT_RATIO cfg) 0.1 10.0)
             \<lparr>rng = s1, current_progress = 0,
               total_progress = static_cast_int (real_of_int (IMAGE_WIDTH cfg) / ASPECT_RATIO cfg),
               cerr = []\<rparr> = Some (rendered, g') \<and>
           main_with L cfg env s =
             Some (if \<not> env_can_open env
                   then \<lparr>exit_status = 1,
                         stderr_text = cerr g' @ ''Error: output file could not be opened.'' @ [CHR 0x0A],
                         image_ppm = None\<rparr>
                   else \<lparr>exit_status = 0,
                         stderr_text =
                           dump_progress
                             (static_cast_int (real_of_int (IMAGE_WIDTH cfg) / ASPECT_RATIO cfg))
                             (cerr g') @ [CHR 0x0A] @ ''Done.'' @ [CHR 0x0A],
                         image_ppm = Some (written (env_write_limit env)
                           (dump_output (IMAGE_WIDTH cfg)
                              (static_cast_int (real_of_int (IMAGE_WIDTH cfg) / ASPECT_RATIO cfg))
                              rendered))\<rparr>)"
proof -
  obtain world s1 where sc: "random_scene (lib_rand L) (lib_RAND_MAX L) s = (world, s1)"
    by (cases "random_scene (lib_rand L) (lib_RAND_MAX L) s")
  define H where "H = static_cast_int (real_of_int (IMAGE_WIDTH cfg) / ASPECT_RATIO cfg)"
  define r where "r = multithreaded_raytracing L (env_sched env) (THREAD_COUNT cfg) (IMAGE_WIDTH cfg)
      H (image_matrix (IMAGE_WIDTH cfg) H) (SAMPLES_PER_PIXEL cfg) (MAX_DEPTH cfg)
      (hittable_list_hit (lib_sphere_hit L) world)
      (camera (Vec3 13 2 3) (Vec3 0 0 0) (Vec3 0 1 0) 20 (ASPECT_RATIO cfg) 0.1 10.0)
      \<lparr>rng = s1, current_progress = 0, total_progress = H, cerr = []\<rparr>"
  have "r \<noteq> None" using assms by (simp add: r_def multithreaded_raytracing_def)
  then obtain rendered g' where r: "r = Some (rendered, g')" by (cases r) auto
  have "main_with L cfg env s =
      (case r of None \<Rightarrow> None
       | Some (rendered, g') \<Rightarrow>
           if \<not> env_can_open env
           then Some \<lparr>exit_status = 1,
                      stderr_text = cerr g' @ ''Error: output file could not be opened.'' @ [CHR 0x0A],
                      image_ppm = None\<rparr>
           else Some \<lparr>exit_status = 0,
                      stderr_text = dump_progress H (cerr g') @ [CHR 0x0A] @ ''Done.'' @ [CHR 0x0A],
                      image_ppm = Some (written (env_write_limit env)
                                          (dump_output (IMAGE_WIDTH cfg) H rendered))\<rparr>)"
    unfolding main_with_def Let_def sc prod.case r_def H_def ..
  then have "main_with L cfg env s =
      Some (if \<not> env_can_open env
            then \<lparr>exit_status = 1,
                  stderr_text = cerr g' @ ''Error: output file could not be opened.'' @ [CHR 0x0A],
                  image_ppm = None\<rparr>
            else \<lparr>exit_status = 0,
                  stderr_text = dump_progress H (cerr g') @ [CHR 0x0A] @ ''Done.'' @ [CHR 0x0A],
                  image_ppm = Some (written (env_write_limit env)
                                      (dump_output (IMAGE_WIDTH cfg) H rendered))\<rparr>)"
    by (simp add: r)
  with sc r show ?thesis unfolding r_def H_def by blast
qed

lemma main_height: "static_cast_int (real_of_int (IMAGE_WIDTH macros) / ASPECT_RATIO macros) = 200"
  by (simp add: macros_def static_cast_int_def)

lemma main_cases:
  fixes L :: "'s library"
  shows "\<exists>world s1 rendered g'.
           random_scene (lib_rand L) (lib_RAND_MAX L) s = (world, s1) \<and>
           multithreaded_raytracing L (env_sched env) 20 300 200 (image_matrix 300 200) 10 30
             (hittable_list_hit (lib_sphere_hit L) world)
             (camera (Vec3 13 2 3) (Vec3 0 0 0) (Vec3 0 1 0) 20 1.5 0.1 10.0)
             \<lparr>rng = s1, current_progress = 0, total_progress = 200, cerr = []\<rparr> =
             Some (rendered, g') \<and>
           main L env s =
             Some (if \<not> env_can_open env
                   then \<lparr>exit_status = 1,
                         stderr_text = cerr g' @ ''Error: output file could not be opened.'' @ [CHR 0x0A],
                         image_ppm = None\<rparr>
                   else \<lparr>exit_status = 0,
                         stderr_text = dump_progress 200 (cerr g') @ [CHR 0x0A] @ ''Done.'' @ [CHR 0x0A],
                         image_ppm = Some (written (env_write_limit env)
                                             (dump_output 300 200 rendered))\<rparr>)"
proof -
  have tc: "THREAD_COUNT macros \<noteq> 0" by (simp add: macros_def)
  have f: "THREAD_COUNT macros = 20" "IMAGE_WIDTH macros = 300" "ASPECT_RATIO macros = 1.5"
    "SAMPLES_PER_PIXEL macros = 10" "MAX_DEPTH macros = 30"
    by (simp_all add: macros_def)
  show ?thesis
    using main_with_cases [OF tc, of L s env]
    unfolding main_height main_def [symmetric] unfolding f .
qed

text \<open>
  C8, as amended. The run renders the scene of \<open>random_scene\<close> into the buffer of
  \<open>200\<close> rows of \<open>300\<close> pixels, every cell an encoded colour, whatever the order of the
  workers. Then: if image.ppm cannot be opened the program writes the diagnostic line to the
  standard error stream and ends with status \<open>1\<close> and no file, and this is the only way
  it ends with a status other than \<open>0\<close>; if the file opens the program ends with status
  \<open>0\<close> whether or not its writes succeed. The file holds the full image (the header and
  the \<open>60000\<close> pixel lines of the rendered buffer) when every write succeeds; when a write
  fails after \<open>k\<close> characters the file holds the first \<open>k\<close> characters of that text
  only, and the status is still \<open>0\<close>. Running out of memory and failing to start a
  thread are outside the model.
\<close>

theorem main_outcome:
  fixes L :: "'s library"
  shows "\<exists>world s1 rendered g' res.
           random_scene (lib_rand L) (lib_RAND_MAX L) s = (world, s1) \<and>
           multithreaded_raytracing L (env_sched env) 20 300 200 (image_matrix 300 200) 10 30
             (hittable_list_hit (lib_sphere_hit L) world)
             (camera (Vec3 13 2 3) (Vec3 0 0 0) (Vec3 0 1 0) 20 1.5 0.1 10.0)
             \<lparr>rng = s1, current_progress = 0, total_progress = 200, cerr = []\<rparr> =
             Some (rendered, g') \<and>
           length rendered = 200 \<and> (\<forall>row \<in> set rendered. length row = 300) \<and>
           (\<forall>j < 200. \<forall>i < 300. \<exists>c. rendered ! j ! i = lib_format_color L c 10) \<and>
           main L env s = Some res \<and>
           (exit_status res \<noteq> 0 \<longleftrightarrow> \<not> env_can_open env) \<and>
           (\<not> env_can_open env \<longrightarrow>
              exit_status res = 1 \<and> image_ppm res = None \<and>
              stderr_text res = cerr g' @ ''Error: output file could not be opened.'' @ [CHR 0x0A]) \<and>
           (env_can_open env \<longrightarrow>
              exit_status res = 0 \<and>
              image_ppm res = Some (written (env_write_limit env) (dump_output 300 200 rendered))) \<and>
           dump_output 300 200 rendered =
             unlines ([''P3'', ''300 200'', ''255''] @ ppm_pixel_lines 300 200 rendered) \<and>
           length (ppm_pixel_lines 300 200 rendered) = 60000 \<and>
           written None (dump_output 300 200 rendered) = dump_output 300 200 rendered \<and>
           (\<forall>k. written (Some k) (dump_output 300 200 rendered) =
                  take k (dump_output 300 200 rendered) \<and>
                (k < length (dump_output 300 200 rendered) \<longrightarrow>
                   written (Some k) (dump_output 300 200 rendered) \<noteq> dump_output 300 200 rendered))"
proof -
  from main_cases [of L s env] obtain world s1 rendered g' where
    sc: "random_scene (lib_rand L) (lib_RAND_MAX L) s = (world, s1)"
    and r: "multithreaded_raytracing L (env_sched env) 20 300 200 (image_matrix 300 200) 10 30
             (hittable_list_hit (lib_sphere_hit L) world)
             (camera (Vec3 13 2 3) (Vec3 0 0 0) (Vec3 0 1 0) 20 1.5 0.1 10.0)
             \<lparr>rng = s1, current_progress = 0, total_progress = 200, cerr = []\<rparr> =
             Some (rendered, g')"
    and eq: "main L env s =
             Some (if \<not> env_can_open env
                   then \<lparr>exit_status = 1,
                         stderr_text = cerr g' @ ''Error: output file could not be opened.'' @ [CHR 0x0A],
                         image_ppm = None\<rparr>
                   else \<lparr>exit_status = 0,
                         stderr_text = dump_progress 200 (cerr g') @ [CHR 0x0A] @ ''Done.'' @ [CHR 0x0A],
                         image_ppm = Some (written (env_write_limit env)
                                             (dump_output 300 200 rendered))\<rparr>)"
    by blast
  define res where "res = (if \<not> env_can_open env
                   then \<lparr>exit_status = 1,
                         stderr_text = cerr g' @ ''Error: output file could not be opened.'' @ [CHR 0x0A],
                         image_ppm = None\<rparr>
                   else \<lparr>exit_status = 0,
                         stderr_text = dump_progress 200 (cerr g') @ [CHR 0x0A] @ ''Done.'' @ [CHR 0x0A],
                         image_ppm = Some (written (env_write_limit env)
                                             (dump_output 300 200 rendered))\<rparr>)"
  from rendered_image_dims [OF r]
  have dims: "length rendered = 200" "\<forall>row \<in> set rendered. length row = 300" by simp_all
  have cells: "\<forall>j < 200. \<forall>i < 300. \<exists>c. rendered ! j ! i = lib_format_color L c 10"
  proof (intro allI impI)
    fix j i :: nat assume j: "j < 200" and i: "i < 300"
    have l: "length (image_matrix 300 200) = nat 200"
      and rw: "\<forall>row \<in> set (image_matrix 300 200). length row = nat 300"
      by (simp_all add: image_matrix_eq)
    from j i have "\<exists>c. rendered ! nat (int j) ! nat (int i) = lib_format_color L c 10"
      by (intro multithreaded_raytracing_written [OF _ _ r l rw]) simp_all
    then show "\<exists>c. rendered ! j ! i = lib_format_color L c 10" by simp
  qed
  have m: "main L env s = Some res" by (simp only: eq res_def)
  have st: "exit_status res \<noteq> 0 \<longleftrightarrow> \<not> env_can_open env" by (simp add: res_def)
  have bad: "\<not> env_can_open env \<longrightarrow>
      exit_status res = 1 \<and> image_ppm res = None \<and>
      stderr_text res = cerr g' @ ''Error: output file could not be opened.'' @ [CHR 0x0A]"
    by (simp add: res_def)
  have good: "env_can_open env \<longrightarrow>
      exit_status res = 0 \<and>
      image_ppm res = Some (written (env_write_limit env) (dump_output 300 200 rendered))"
    by (simp add: res_def)
  have s300: "string_of_int 300 = ''300''" and s200: "string_of_int 200 = ''200''"
    by (simp_all add: string_of_int_def string_of_nat.simps)
  have ppm: "dump_output 300 200 rendered =
      unlines ([''P3'', ''300 200'', ''255''] @ ppm_pixel_lines 300 200 rendered)"
    using dump_output_lines [of 300 200 rendered] by (simp add: s300 s200)
  have len: "length (ppm_pixel_lines 300 200 rendered) = 60000"
    using length_ppm_pixel_lines [of 300 200 rendered] by simp
  have w0: "written None (dump_output 300 200 rendered) = dump_output 300 200 rendered"
    by (simp add: written_def)
  have wk: "\<forall>k. written (Some k) (dump_output 300 200 rendered) =
                  take k (dump_output 300 200 rendered) \<and>
                (k < length (dump_output 300 200 rendered) \<longrightarrow>
                   written (Some k) (dump_output 300 200 rendered) \<noteq> dump_output 300 200 rendered)"
  proof (intro allI conjI impI)
    fix k
    show "written (Some k) (dump_output 300 200 rendered) = take k (dump_output 300 200 rendered)"
      by (simp add: written_def)
    assume "k < length (dump_output 300 200 rendered)"
    then have "length (written (Some k) (dump_output 300 200 rendered)) \<noteq>
        length (dump_output 300 200 rendered)"
      by (simp add: written_def)
    then show "written (Some k) (dump_output 300 200 rendered) \<noteq> dump_output 300 200 rendered"
      by auto
  qed
  from sc r dims cells m st bad good ppm len w0 wk show ?thesis
    by (intro exI [of _ world] exI [of _ s1] exI [of _ rendered] exI [of _ g'] exI [of _ res])
       (intro conjI; assumption)
qed

lemma main_file:
  fixes L :: "'s library"
  assumes "env_can_open env"
  shows "\<exists>rendered. map_option image_ppm (main L env s) =
           Some (Some (written (env_write_limit env) (dump_output 300 200 rendered))) \<and>
         map_option exit_status (main L env s) = Some 0"
proof -
  from main_cases [of L s env] obtain rendered and g' :: "'s globals" where
    "main L env s =
       Some (if \<not> env_can_open env
             then \<lparr>exit_status = 1,
                   stderr_text = cerr g' @ ''Error: output file could not be opened.'' @ [CHR 0x0A],
                   image_ppm = None\<rparr>
             else \<lparr>exit_status = 0,
                   stderr_text = dump_progress 200 (cerr g') @ [CHR 0x0A] @ ''Done.'' @ [CHR 0x0A],
                   image_ppm = Some (written (env_write_limit env)
                                       (dump_output 300 200 rendered))\<rparr>)"
    by (elim exE conjE) (rule that, assumption)
  with assms show ?thesis by (intro exI [of _ rendered]) simp
qed

text \<open>
  C8 as first stated says that a run either writes the full image and returns \<open>0\<close> or
  ends with another status, with no partial success. main.cpp tests the stream after
  opening it and never after a write: a run whose file opens and accepts five characters
  returns \<open>0\<close> and leaves a file of five characters.
\<close>

theorem main_truncated_file:
  "env_can_open demo_env_disk_full \<and>
   map_option exit_status (main demo_library demo_env_disk_full 0) = Some 0 \<and>
   map_option image_ppm (main demo_library demo_env_disk_full 0) =
     Some (Some (''P3'' @ [CHR 0x0A] @ ''30''))"
proof -
  have o: "env_can_open demo_env_disk_full" by (simp add: demo_env_disk_full_def)
  from main_file [OF o, of demo_library 0] obtain rendered where
    f: "map_option image_ppm (main demo_library demo_env_disk_full 0) =
        Some (Some (written (env_write_limit demo_env_disk_full) (dump_output 300 200 rendered)))"
    and e: "map_option exit_status (main demo_library demo_env_disk_full 0) = Some 0"
    by blast
  have s300: "string_of_int 300 = ''300''" and s200: "string_of_int 200 = ''200''"
    by (simp_all add: string_of_int_def string_of_nat.simps)
  have "written (env_write_limit demo_env_disk_full) (dump_output 300 200 rendered) =
      ''P3'' @ [CHR 0x0A] @ ''30''"
    by (simp add: written_def demo_env_disk_full_def dump_output_lines unlines_def s300 s200)
  with f e o show ?thesis by simp
qed

theorem main_outcome_witness:
  "map_option exit_status (main demo_library demo_env_no_open 0) = Some 1 \<and>
   map_option image_ppm (main demo_library demo_env_no_open 0) = Some None \<and>
   map_option exit_status (main demo_library demo_env 0) = Some 0"
proof -
  from main_outcome [of demo_library 0 demo_env_no_open] obtain res where
    "main demo_library demo_env_no_open 0 = Some res"
    and "\<not> env_can_open demo_env_no_open \<longrightarrow> exit_status res = 1 \<and> image_ppm res = None \<and>
      (\<exists>err. stderr_text res = err)"
    by blast
  then have a: "map_option exit_status (main demo_library demo_env_no_open 0) = Some 1"
    and b: "map_option image_ppm (main demo_library demo_env_no_open 0) = Some None"
    by (simp_all add: demo_env_no_open_def)
  from main_outcome [of demo_library 0 demo_env] obtain res where
    "main demo_library demo_env 0 = Some res"
    and "env_can_open demo_env \<longrightarrow> exit_status res = 0"
    by blast
  then have c: "map_option exit_status (main demo_library demo_env 0) = Some 0"
    by (simp add: demo_env_def)
  from a b c show ?thesis by simp
qed
























end
